theory Spec2Isabelle
  imports Main "HOL-Library.Word" "HOL-Library.Monad_Syntax"
begin

section \<open>Errors\<close>

text \<open>
  Go errors are values. The sentinels below are the package-level error variables the
  source compares against; \<open>ErrOther\<close> stands for any other leaf error (a transport
  failure, a decoding failure, ...), identified by its message. \<open>Wrapf\<close> is an error
  that wraps another one with a message, \<open>DetailedError e fatal\<close> an error \<open>e\<close> tagged as
  fatal or not.
\<close>

datatype error =
    ErrAcceptedPayloadStatus
  | ErrSyncingPayloadStatus
  | ErrInvalidPayloadStatus
  | ErrInvalidBlockHashPayloadStatus
  | ErrBadBlockProduced
  | ErrNilBlk
  | ErrOther string
  | Wrapf string error
  | DetailedError error bool

text \<open>Modelled from the spec: the \<^verbatim>\<open>errors\<close> package (\<^verbatim>\<open>Is\<close>, \<^verbatim>\<open>WrapNonFatal\<close>, \<^verbatim>\<open>WrapFatal\<close>,
  \<^verbatim>\<open>IsFatal\<close>) is not among the source files. Section 7 of the specification separates
  non-fatal from fatal errors; the source marks an error non-fatal with \<^verbatim>\<open>WrapNonFatal\<close>
  and asks \<^verbatim>\<open>IsFatal\<close>.

  \<^verbatim>\<open>errors.Is(err, target)\<close> walks the chain of wrapped errors of \<open>err\<close> and compares each
  link with \<open>target\<close>; a nil \<open>err\<close> matches no target.\<close>

fun chain_Is :: "error \<Rightarrow> error \<Rightarrow> bool" where
  "chain_Is (Wrapf m e) t = (Wrapf m e = t \<or> chain_Is e t)"
| "chain_Is (DetailedError e f) t = (DetailedError e f = t \<or> chain_Is e t)"
| "chain_Is e t = (e = t)"

text \<open>Modelled from the spec: \<^verbatim>\<open>errors.Is\<close> on a possibly nil error.\<close>

definition errors_Is :: "error option \<Rightarrow> error \<Rightarrow> bool" where
  "errors_Is err t = (case err of None \<Rightarrow> False | Some e \<Rightarrow> chain_Is e t)"

text \<open>Modelled from the spec: \<^verbatim>\<open>errors.WrapNonFatal\<close> tags an error as non-fatal.\<close>

definition WrapNonFatal :: "error \<Rightarrow> error" where
  "WrapNonFatal e = DetailedError e False"

text \<open>Modelled from the spec: \<^verbatim>\<open>errors.WrapFatal\<close> tags an error as fatal.\<close>

definition WrapFatal :: "error \<Rightarrow> error" where
  "WrapFatal e = DetailedError e True"

text \<open>Modelled from the spec: \<^verbatim>\<open>errors.IsFatal(err)\<close>. Nil is not fatal; the outermost
  tag of the chain decides; an error that carries no tag is fatal.\<close>

fun chain_IsFatal :: "error \<Rightarrow> bool" where
  "chain_IsFatal (DetailedError e f) = f"
| "chain_IsFatal (Wrapf m e) = chain_IsFatal e"
| "chain_IsFatal e = True"

text \<open>Modelled from the spec: \<^verbatim>\<open>errors.IsFatal\<close> on a possibly nil error.\<close>

definition IsFatal :: "error option \<Rightarrow> bool" where
  "IsFatal err = (case err of None \<Rightarrow> False | Some e \<Rightarrow> chain_IsFatal e)"

text \<open>The innermost error of a chain.\<close>

fun root_cause :: "error \<Rightarrow> error" where
  "root_cause (Wrapf m e) = root_cause e"
| "root_cause (DetailedError e f) = root_cause e"
| "root_cause e = e"

definition is_sentinel :: "error \<Rightarrow> bool" where
  "is_sentinel t = (case t of Wrapf m e \<Rightarrow> False | DetailedError e f \<Rightarrow> False | _ \<Rightarrow> True)"


section \<open>Execution engine adapter\<close>

type_synonym bytes = "8 word list"
type_synonym ExecutionHash = "256 word"
type_synonym Root = "256 word"
type_synonym PayloadID = "64 word"
type_synonym Version = "32 word"

record ForkchoiceStateV1 =
  HeadBlockHash :: ExecutionHash
  SafeBlockHash :: ExecutionHash
  FinalizedBlockHash :: ExecutionHash

text \<open>The payload attributes are passed through to the client untouched; only their
  presence is inspected (for a log line). They are kept as opaque bytes.\<close>

record ForkchoiceUpdateRequest =
  State :: ForkchoiceStateV1
  PayloadAttributes :: "bytes option"
  ForkVersion :: Version

record ExecutionPayloadT =
  BlockHash :: ExecutionHash
  ParentHash :: ExecutionHash
  PayloadBody :: bytes

record NewPayloadRequest =
  ExecutionPayload :: ExecutionPayloadT
  VersionedHashes :: "ExecutionHash list"
  ParentBeaconBlockRoot :: "Root option"
  SkipIfExists :: bool
  Optimistic :: bool

type_synonym fcu_reply = "PayloadID option \<times> ExecutionHash option \<times> error option"

text \<open>
  The engine client \<^verbatim>\<open>ee.ec\<close> is the JSON-RPC counterparty; its code is outside the
  adapter. It is a parameter: three operations over a client state \<open>'el\<close> of its own, each
  returning its Go result tuple and the client's next state. \<open>HasValidHashes\<close> is the
  request's own \<^verbatim>\<open>HasValidVersionedAndBlockHashes\<close> check, also a parameter.
\<close>

record 'el EngineClient =
  ForkchoiceUpdated ::
    "'el \<Rightarrow> ForkchoiceStateV1 \<Rightarrow> bytes option \<Rightarrow> Version \<Rightarrow> fcu_reply \<times> 'el"
  HeaderByHash ::
    "'el \<Rightarrow> ExecutionHash \<Rightarrow> (bytes option \<times> error option) \<times> 'el"
  NewPayload ::
    "'el \<Rightarrow> ExecutionPayloadT \<Rightarrow> ExecutionHash list \<Rightarrow> Root option
       \<Rightarrow> (ExecutionHash option \<times> error option) \<times> 'el"
  HasValidHashes :: "NewPayloadRequest \<Rightarrow> error option"

text \<open>
  \<^verbatim>\<open>NotifyForkchoiceUpdate\<close>. The function calls itself on an invalid status, with no
  bound of its own, so it is a partial function: \<open>None\<close> is "does not return". A result
  is the Go triple, the client's state afterwards and the request as the caller finds it:
  the request is a pointer, and the caller sees the assignment
  \<^verbatim>\<open>req.State.HeadBlockHash = req.State.SafeBlockHash\<close>.
\<close>

partial_function (option) NotifyForkchoiceUpdate ::
  "'el EngineClient \<Rightarrow> 'el \<Rightarrow> ForkchoiceUpdateRequest
     \<Rightarrow> (fcu_reply \<times> 'el \<times> ForkchoiceUpdateRequest) option"
where
  "NotifyForkchoiceUpdate ec el req =
     (case ForkchoiceUpdated ec el (State req) (PayloadAttributes req) (ForkVersion req) of
        ((payloadID, latestValidHash, err), el') \<Rightarrow>
          if errors_Is err ErrAcceptedPayloadStatus \<or>
             errors_Is err ErrSyncingPayloadStatus then
            Some ((payloadID, None, None), el', req)
          else if errors_Is err ErrInvalidPayloadStatus \<or>
                  errors_Is err ErrInvalidBlockHashPayloadStatus then
            NotifyForkchoiceUpdate ec el'
                (req\<lparr>State := (State req)\<lparr>HeadBlockHash := SafeBlockHash (State req)\<rparr>\<rparr>) \<bind>
              (\<lambda>((payloadID', latestValidHash', err'), el'', req'').
                 if err' \<noteq> None then Some ((None, None, err'), el'', req'')
                 else Some ((payloadID', latestValidHash', Some ErrBadBlockProduced), el'', req''))
          else if err \<noteq> None then
            Some ((None, None, err), el', req)
          else
            Some ((payloadID, latestValidHash, None), el', req))"

declare NotifyForkchoiceUpdate.simps [code]

text \<open>\<^verbatim>\<open>VerifyAndNotifyNewPayload\<close>: the returned error and the client's state afterwards.\<close>

definition VerifyAndNotifyNewPayload ::
  "'el EngineClient \<Rightarrow> 'el \<Rightarrow> NewPayloadRequest \<Rightarrow> error option \<times> 'el"
where
  "VerifyAndNotifyNewPayload ec el req =
     (case HasValidHashes ec req of
        Some e \<Rightarrow> (Some e, el)
      | None \<Rightarrow>
          if SkipIfExists req then
            (case HeaderByHash ec el (BlockHash (ExecutionPayload req)) of
               ((header, err), el') \<Rightarrow> (None, el'))
          else
            (case NewPayload ec el (ExecutionPayload req) (VersionedHashes req)
                    (ParentBeaconBlockRoot req) of
               ((lastValidHash, err), el') \<Rightarrow>
                 if errors_Is err ErrAcceptedPayloadStatus \<or>
                    errors_Is err ErrSyncingPayloadStatus then
                   (if Optimistic req then (None, el') else (err, el'))
                 else if errors_Is err ErrInvalidPayloadStatus \<or>
                         errors_Is err ErrInvalidBlockHashPayloadStatus then
                   (Some ErrBadBlockProduced, el')
                 else (err, el')))"


section \<open>BeaconState store\<close>

text \<open>
  Modelled from the spec: \<^verbatim>\<open>sdk.Context.CacheContext\<close> and the key-value backend belong to
  the persistence layer, which is not among the source files. Section 4.1: a branch is
  an overlay in which all writes are buffered and become visible only on commit; reads
  return a value or a key-missing failure.

  The stores live in an explicit heap, since a state and its branches are handles on
  shared stores: a context is the address of a store layer. A layer buffers its own
  writes (\<open>Some v\<close> a value set, \<open>None\<close> a deletion) and falls back to its parent for
  every key it has not written.
\<close>

type_synonym addr = nat

record layer =
  parent :: "addr option"
  buf :: "bytes \<Rightarrow> bytes option option"

type_synonym stores = "layer list"

text \<open>Modelled from the spec: a read through a layer (section 4.1, "read operations
  return a value or a key-missing failure"); \<open>None\<close> is the missing key.\<close>

function rd :: "stores \<Rightarrow> addr \<Rightarrow> bytes \<Rightarrow> bytes option" where
  "rd h a k =
     (if a < length h then
        (case buf (h ! a) k of
           Some w \<Rightarrow> w
         | None \<Rightarrow>
             (case parent (h ! a) of
                None \<Rightarrow> None
              | Some p \<Rightarrow> if p < a then rd h p k else None))
      else None)"
  by pat_completeness auto
termination
  by (relation "measure (\<lambda>(h, a, k). a)") auto

declare rd.simps [simp del]

datatype write_op = SetKey bytes bytes | DeleteKey bytes

text \<open>Modelled from the spec: a write is buffered in the layer it goes to.\<close>

definition kv_write :: "stores \<Rightarrow> addr \<Rightarrow> write_op \<Rightarrow> stores" where
  "kv_write h a w =
     (if a < length h then
        (case w of
           SetKey k v \<Rightarrow> h[a := (h ! a)\<lparr>buf := (buf (h ! a))(k \<mapsto> Some v)\<rparr>]
         | DeleteKey k \<Rightarrow> h[a := (h ! a)\<lparr>buf := (buf (h ! a))(k \<mapsto> None)\<rparr>])
      else h)"

text \<open>Modelled from the spec: a sequence of writes to one layer, in order.\<close>

definition kv_writes :: "stores \<Rightarrow> addr \<Rightarrow> write_op list \<Rightarrow> stores" where
  "kv_writes h a ws = foldl (\<lambda>h' w. kv_write h' a w) h ws"

text \<open>Modelled from the spec: \<^verbatim>\<open>CacheContext()\<close> allocates an empty layer over the receiver's and returns its
  context together with the function that flushes it; the function is represented by
  the address of the layer it flushes.\<close>

definition CacheContext :: "stores \<Rightarrow> addr \<Rightarrow> stores \<times> addr \<times> addr" where
  "CacheContext h a = (h @ [\<lparr>parent = Some a, buf = Map.empty\<rparr>], length h, length h)"

text \<open>Modelled from the spec: the flush ("commit") merges the layer's buffer into its
  parent and empties it.\<close>

definition flush :: "stores \<Rightarrow> addr \<Rightarrow> stores" where
  "flush h c =
     (if c < length h then
        (case parent (h ! c) of
           None \<Rightarrow> h
         | Some p \<Rightarrow>
             if p < length h \<and> p \<noteq> c then
               (h[p := (h ! p)\<lparr>buf := buf (h ! p) ++ buf (h ! c)\<rparr>])
                 [c := (h ! c)\<lparr>buf := Map.empty\<rparr>]
             else h)
      else h)"

text \<open>
  \<^verbatim>\<open>StateDB\<close>: the context and the \<^verbatim>\<open>write\<close> function
  (field \<open>writeFn\<close>; \<open>None\<close> is Go's nil). The other
  fields of the struct are the collection schemas, built once by \<^verbatim>\<open>New\<close> from fixed key
  prefixes and never assigned afterwards; they are the same in every value and left out.
\<close>

record StateDB =
  ctx :: "addr option"
  writeFn :: "addr option"

datatype panic = NilContext | NilPointerDereference

definition New :: "unit \<Rightarrow> StateDB" where
  "New kss = \<lparr>ctx = None, writeFn = None\<rparr>"

definition Context :: "StateDB \<Rightarrow> addr option" where
  "Context s = ctx s"

definition WithContext :: "StateDB \<Rightarrow> addr option \<Rightarrow> StateDB" where
  "WithContext s c = (let cpy = s in cpy\<lparr>ctx := c\<rparr>)"

text \<open>\<^verbatim>\<open>Copy\<close>: unwrapping a nil context panics.\<close>

definition Copy :: "stores \<Rightarrow> StateDB \<Rightarrow> panic + (stores \<times> StateDB)" where
  "Copy h s =
     (case ctx s of
        None \<Rightarrow> Inl NilContext
      | Some a \<Rightarrow>
          (case CacheContext h a of
             (h', cctx, wr) \<Rightarrow>
               (let ss = WithContext s (Some cctx) in Inr (h', ss\<lparr>writeFn := Some wr\<rparr>))))"

definition Save :: "stores \<Rightarrow> StateDB \<Rightarrow> stores" where
  "Save h s = (case writeFn s of None \<Rightarrow> h | Some c \<Rightarrow> flush h c)"

text \<open>Modelled from the spec: the state's setters and \<^verbatim>\<open>HashTreeRoot\<close> are not among the
  source files. A write through a state goes to the store of its context; the root is a
  pure function (a parameter) of what the state reads (section 3, invariant 6).\<close>

definition state_write :: "stores \<Rightarrow> StateDB \<Rightarrow> write_op list \<Rightarrow> stores" where
  "state_write h s ws = (case ctx s of None \<Rightarrow> h | Some a \<Rightarrow> kv_writes h a ws)"

text \<open>Modelled from the spec: a read through a state goes to the store of its context.\<close>

definition state_read :: "stores \<Rightarrow> StateDB \<Rightarrow> bytes \<Rightarrow> bytes option" where
  "state_read h s k = (case ctx s of None \<Rightarrow> None | Some a \<Rightarrow> rd h a k)"

text \<open>Modelled from the spec: \<^verbatim>\<open>HashTreeRoot\<close>, a pure function of what the state reads.\<close>

definition HashTreeRoot ::
  "((bytes \<Rightarrow> bytes option) \<Rightarrow> Root) \<Rightarrow> stores \<Rightarrow> StateDB \<Rightarrow> Root" where
  "HashTreeRoot htr h s = htr (state_read h s)"

text \<open>What a sequence of writes leaves in a view.\<close>

fun apply_write :: "(bytes \<Rightarrow> bytes option) \<Rightarrow> write_op \<Rightarrow> (bytes \<Rightarrow> bytes option)" where
  "apply_write m (SetKey k v) = m(k \<mapsto> v)"
| "apply_write m (DeleteKey k) = m(k := None)"


section \<open>Blockchain service\<close>

record BeaconBlock =
  Slot :: "64 word"
  StateRoot :: Root
  Header :: bytes

record ExecutionPayloadHeader =
  Timestamp :: "64 word"

record ProcessProposalRequest =
  Txs :: "bytes list"
  Height :: "64 word"
  Time :: "64 word"
  ProposerAddress :: bytes

datatype ProcessProposalStatus =
  PROCESS_PROPOSAL_STATUS_ACCEPT | PROCESS_PROPOSAL_STATUS_REJECT

record ProcessProposalResponse =
  Status :: ProcessProposalStatus

record ConsensusSidecars =
  cs_sidecars :: "bytes list option"
  cs_blkHeader :: bytes

record ConsensusBlock =
  cb_blk :: "BeaconBlock option"
  cb_proposerAddress :: bytes
  cb_consensusTime :: "64 word"

record transition_Context =
  tc_Context :: addr
  OptimisticEngine :: bool
  SkipPayloadVerification :: bool
  SkipValidateResult :: bool
  SkipValidateRandao :: bool
  tc_ProposerAddress :: bytes
  tc_ConsensusTime :: "64 word"

definition BeaconBlockTxIndex :: nat where
  "BeaconBlockTxIndex = 0"

definition BlobSidecarsTxIndex :: nat where
  "BlobSidecarsTxIndex = 1"

text \<open>
  What the service does to the world around it: the stores, the one-shot flag of
  \<^verbatim>\<open>forceStartupSyncOnce\<close>, and, in order, the calls it makes on its collaborators and the
  background tasks it launches with \<^verbatim>\<open>go\<close>. Log lines and the timing metric are not
  recorded.
\<close>

datatype event =
    ForceStartupHead StateDB
  | VerifySidecarsCall ConsensusSidecars
  | TransitionCall transition_Context StateDB "BeaconBlock option"
  | GoRebuildPayloadForRejectedBlock StateDB "64 word"
  | GoOptimisticPayloadBuild StateDB "BeaconBlock option" "64 word"

record world =
  stores :: stores
  forceStartupSyncOnce :: bool
  trace :: "event list"

text \<open>
  The collaborators of \<^verbatim>\<open>Service\<close> are parameters: the chain spec, the two decoders of
  the \<^verbatim>\<open>encoding\<close> package, the \<^verbatim>\<open>GetHeader\<close> method of the block type, the blob
  processor, the state processor (which may write to the stores through the state it is
  given), the read of the latest execution
  payload header, \<^verbatim>\<open>payloadtime.Next\<close> and the two configuration flags. Each returns its
  Go result tuple.
\<close>

record Service =
  ActiveForkVersionForSlot :: "64 word \<Rightarrow> Version"
  UnmarshalBeaconBlockFromABCIRequest ::
    "ProcessProposalRequest \<Rightarrow> nat \<Rightarrow> Version \<Rightarrow> BeaconBlock option \<times> error option"
  UnmarshalBlobSidecarsFromABCIRequest ::
    "ProcessProposalRequest \<Rightarrow> nat \<Rightarrow> bytes list option \<times> error option"
  GetHeader :: "BeaconBlock option \<Rightarrow> bytes"
  VerifySidecars :: "ConsensusSidecars \<Rightarrow> error option"
  Transition ::
    "transition_Context \<Rightarrow> StateDB \<Rightarrow> BeaconBlock option \<Rightarrow> stores
       \<Rightarrow> error option \<times> stores"
  GetLatestExecutionPayloadHeader ::
    "stores \<Rightarrow> StateDB \<Rightarrow> ExecutionPayloadHeader option \<times> error option"
  payloadtime_Next :: "64 word \<Rightarrow> 64 word \<Rightarrow> bool \<Rightarrow> 64 word"
  optimisticPayloadBuilds :: bool
  localBuilder_Enabled :: bool

text \<open>Modelled from the spec: \<^verbatim>\<open>storageBackend.StateFromContext\<close> is not among the source
  files; section 4.1, \<open>snapshot(ctx)\<close> returns a handle anchored at the committed state
  as of \<open>ctx\<close>.\<close>

definition StateFromContext :: "addr \<Rightarrow> StateDB" where
  "StateFromContext c = WithContext (New ()) (Some c)"

definition createProcessProposalResponse ::
  "error option \<Rightarrow> ProcessProposalResponse \<times> error option" where
  "createProcessProposalResponse err =
     (let status = PROCESS_PROPOSAL_STATUS_REJECT in
      if \<not> IsFatal err then (\<lparr>Status = PROCESS_PROPOSAL_STATUS_ACCEPT\<rparr>, None)
      else (\<lparr>Status = status\<rparr>, err))"

definition shouldBuildOptimisticPayloads :: "Service \<Rightarrow> bool" where
  "shouldBuildOptimisticPayloads s = (optimisticPayloadBuilds s \<and> localBuilder_Enabled s)"

definition verifyStateRoot ::
  "Service \<Rightarrow> world \<Rightarrow> addr \<Rightarrow> StateDB \<Rightarrow> BeaconBlock option \<Rightarrow> 64 word \<Rightarrow> bytes
     \<Rightarrow> error option \<times> world"
where
  "verifyStateRoot s w c st blk consensusTime proposerAddress =
     (let tc = \<lparr>tc_Context = c,
                OptimisticEngine = False,
                SkipPayloadVerification = False,
                SkipValidateResult = False,
                SkipValidateRandao = False,
                tc_ProposerAddress = proposerAddress,
                tc_ConsensusTime = consensusTime\<rparr>
      in case Transition s tc st blk (stores w) of
           (err, h') \<Rightarrow>
             (let w' = w\<lparr>stores := h', trace := trace w @ [TransitionCall tc st blk]\<rparr>
              in if errors_Is err ErrAcceptedPayloadStatus then (None, w') else (err, w')))"

text \<open>\<^verbatim>\<open>forceStartupSyncOnce.Do(...)\<close>: runs its argument on the first call only.\<close>

definition forceStartupSync :: "world \<Rightarrow> StateDB \<Rightarrow> world" where
  "forceStartupSync w preState =
     (if forceStartupSyncOnce w then w
      else w\<lparr>forceStartupSyncOnce := True, trace := trace w @ [ForceStartupHead preState]\<rparr>)"

text \<open>\<^verbatim>\<open>lph.GetTimestamp()\<close> on the header just read; a nil header is a nil dereference.\<close>

definition GetTimestamp :: "ExecutionPayloadHeader option \<Rightarrow> panic + 64 word" where
  "GetTimestamp lph =
     (case lph of None \<Rightarrow> Inl NilPointerDereference | Some lh \<Rightarrow> Inr (Timestamp lh))"

definition VerifyIncomingBlock ::
  "Service \<Rightarrow> world \<Rightarrow> addr \<Rightarrow> BeaconBlock option \<Rightarrow> 64 word \<Rightarrow> bytes
     \<Rightarrow> panic + (error option \<times> world)"
where
  "VerifyIncomingBlock s w c beaconBlk consensusTime proposerAddress =
     (let preState = StateFromContext c;
          w0 = forceStartupSync w preState
      in if beaconBlk = None then Inr (Some (WrapNonFatal ErrNilBlk), w0)
         else
           (case Copy (stores w0) preState of
              Inl p \<Rightarrow> Inl p
            | Inr (h1, postState) \<Rightarrow>
                (case verifyStateRoot s (w0\<lparr>stores := h1\<rparr>) c postState beaconBlk
                        consensusTime proposerAddress of
                   (err, w1) \<Rightarrow>
                     if err \<noteq> None then
                       (if shouldBuildOptimisticPayloads s then
                          (case GetLatestExecutionPayloadHeader s (stores w1) preState of
                             (lph, err') \<Rightarrow>
                               if err' \<noteq> None then Inr (err', w1)
                               else
                                 (case GetTimestamp lph of
                                    Inl p \<Rightarrow> Inl p
                                  | Inr ts \<Rightarrow>
                                      Inr (err',
                                        w1\<lparr>trace := trace w1 @
                                          [GoRebuildPayloadForRejectedBlock preState
                                             (payloadtime_Next s consensusTime ts True)]\<rparr>)))
                        else Inr (err, w1))
                     else
                       (if shouldBuildOptimisticPayloads s then
                          (case GetLatestExecutionPayloadHeader s (stores w1) postState of
                             (lph, err') \<Rightarrow>
                               if err' \<noteq> None then Inr (err', w1)
                               else
                                 (case GetTimestamp lph of
                                    Inl p \<Rightarrow> Inl p
                                  | Inr ts \<Rightarrow>
                                      Inr (None,
                                        w1\<lparr>trace := trace w1 @
                                          [GoOptimisticPayloadBuild postState beaconBlk
                                             (payloadtime_Next s consensusTime ts True)]\<rparr>)))
                        else Inr (None, w1)))))"

text \<open>The last part of \<^verbatim>\<open>ProcessProposal\<close> ("Process the block").\<close>

definition processBlock ::
  "Service \<Rightarrow> world \<Rightarrow> addr \<Rightarrow> ProcessProposalRequest \<Rightarrow> BeaconBlock option
     \<Rightarrow> panic + ((ProcessProposalResponse \<times> error option) \<times> world)"
where
  "processBlock s w c req blk =
     (let consensusBlk = \<lparr>cb_blk = blk,
                          cb_proposerAddress = ProposerAddress req,
                          cb_consensusTime = Time req\<rparr>
      in case VerifyIncomingBlock s w c (cb_blk consensusBlk) (cb_consensusTime consensusBlk)
                (cb_proposerAddress consensusBlk) of
           Inl p \<Rightarrow> Inl p
         | Inr (Some e, w') \<Rightarrow> Inr (createProcessProposalResponse (Some (WrapNonFatal e)), w')
         | Inr (None, w') \<Rightarrow> Inr (createProcessProposalResponse None, w'))"

text \<open>\<^verbatim>\<open>sidecars.IsNil()\<close> and \<^verbatim>\<open>sidecars.Len()\<close> of the decoded sidecar list.\<close>

definition sidecars_IsNil :: "bytes list option \<Rightarrow> bool" where
  "sidecars_IsNil sidecars = (sidecars = None)"

definition sidecars_Len :: "bytes list option \<Rightarrow> nat" where
  "sidecars_Len sidecars = (case sidecars of None \<Rightarrow> 0 | Some l \<Rightarrow> length l)"

definition ProcessProposal ::
  "Service \<Rightarrow> world \<Rightarrow> addr \<Rightarrow> ProcessProposalRequest
     \<Rightarrow> panic + ((ProcessProposalResponse \<times> error option) \<times> world)"
where
  "ProcessProposal s w c req =
     (case UnmarshalBeaconBlockFromABCIRequest s req BeaconBlockTxIndex
             (ActiveForkVersionForSlot s (Height req)) of
        (blk, Some e) \<Rightarrow> Inr (createProcessProposalResponse (Some (WrapNonFatal e)), w)
      | (blk, None) \<Rightarrow>
          (case UnmarshalBlobSidecarsFromABCIRequest s req BlobSidecarsTxIndex of
             (sidecars, Some e) \<Rightarrow>
               Inr (createProcessProposalResponse (Some (WrapNonFatal e)), w)
           | (sidecars, None) \<Rightarrow>
               if \<not> sidecars_IsNil sidecars \<and> sidecars_Len sidecars > 0 then
                 (let consensusSidecars =
                        \<lparr>cs_sidecars = sidecars, cs_blkHeader = GetHeader s blk\<rparr>;
                      w1 = w\<lparr>trace := trace w @ [VerifySidecarsCall consensusSidecars]\<rparr>
                  in case VerifySidecars s consensusSidecars of
                       Some e \<Rightarrow>
                         Inr (createProcessProposalResponse (Some (WrapNonFatal e)), w1)
                     | None \<Rightarrow> processBlock s w1 c req blk)
               else processBlock s w c req blk))"


section \<open>Test doubles\<close>

text \<open>
  A scripted execution client, as in the specification's testable property 6 ("given a
  mocked EL returning each of ..."): it answers \<^verbatim>\<open>forkchoiceUpdated\<close> from a script, one
  reply per call (\<open>VALID\<close> with the requested head once the script is used up), knows
  a list of block hashes, answers \<^verbatim>\<open>newPayload\<close> with a fixed reply, and records every
  call it receives.
\<close>

datatype el_call =
    ForkchoiceUpdatedCall ForkchoiceStateV1
  | HeaderByHashCall ExecutionHash
  | NewPayloadCall ExecutionHash

record mock_el =
  fcu_script :: "fcu_reply list"
  known_blocks :: "ExecutionHash list"
  np_reply :: "ExecutionHash option \<times> error option"
  el_calls :: "el_call list"

definition mock_ForkchoiceUpdated ::
  "mock_el \<Rightarrow> ForkchoiceStateV1 \<Rightarrow> bytes option \<Rightarrow> Version \<Rightarrow> fcu_reply \<times> mock_el" where
  "mock_ForkchoiceUpdated el st attrs v =
     (case fcu_script el of
        [] \<Rightarrow> ((None, Some (HeadBlockHash st), None),
                el\<lparr>el_calls := el_calls el @ [ForkchoiceUpdatedCall st]\<rparr>)
      | r # rs \<Rightarrow> (r, el\<lparr>fcu_script := rs,
                          el_calls := el_calls el @ [ForkchoiceUpdatedCall st]\<rparr>))"

definition mock_HeaderByHash ::
  "mock_el \<Rightarrow> ExecutionHash \<Rightarrow> (bytes option \<times> error option) \<times> mock_el" where
  "mock_HeaderByHash el bh =
     ((if bh \<in> set (known_blocks el) then (Some [], None)
       else (None, Some (ErrOther ''not found''))),
      el\<lparr>el_calls := el_calls el @ [HeaderByHashCall bh]\<rparr>)"

definition mock_NewPayload ::
  "mock_el \<Rightarrow> ExecutionPayloadT \<Rightarrow> ExecutionHash list \<Rightarrow> Root option
     \<Rightarrow> (ExecutionHash option \<times> error option) \<times> mock_el" where
  "mock_NewPayload el pl vhs pbr =
     (np_reply el, el\<lparr>el_calls := el_calls el @ [NewPayloadCall (BlockHash pl)]\<rparr>)"

definition mockClient :: "mock_el EngineClient" where
  "mockClient =
     \<lparr>ForkchoiceUpdated = mock_ForkchoiceUpdated,
      HeaderByHash = mock_HeaderByHash,
      NewPayload = mock_NewPayload,
      HasValidHashes = (\<lambda>req. None)\<rparr>"

definition mockEL :: "fcu_reply list \<Rightarrow> (ExecutionHash option \<times> error option) \<Rightarrow> mock_el" where
  "mockEL script np = \<lparr>fcu_script = script, known_blocks = [], np_reply = np, el_calls = []\<rparr>"

definition INVALID :: fcu_reply where
  "INVALID = (None, Some 7, Some ErrInvalidPayloadStatus)"

definition INVALID_BLOCK_HASH :: fcu_reply where
  "INVALID_BLOCK_HASH = (None, None, Some ErrInvalidBlockHashPayloadStatus)"

definition VALID :: fcu_reply where
  "VALID = (Some 5, Some 9, None)"

definition SYNCING :: fcu_reply where
  "SYNCING = (Some 5, Some 9, Some ErrSyncingPayloadStatus)"

definition ACCEPTED :: fcu_reply where
  "ACCEPTED = (Some 5, Some 9, Some (Wrapf ''engine'' ErrAcceptedPayloadStatus))"

definition fcuReq :: ForkchoiceUpdateRequest where
  "fcuReq = \<lparr>State = \<lparr>HeadBlockHash = 3, SafeBlockHash = 2, FinalizedBlockHash = 1\<rparr>,
             PayloadAttributes = None, ForkVersion = 4\<rparr>"

definition npReq :: "bool \<Rightarrow> bool \<Rightarrow> NewPayloadRequest" where
  "npReq skip opt =
     \<lparr>ExecutionPayload = \<lparr>BlockHash = 3, ParentHash = 2, PayloadBody = []\<rparr>,
      VersionedHashes = [], ParentBeaconBlockRoot = None,
      SkipIfExists = skip, Optimistic = opt\<rparr>"

text \<open>
  A service whose collaborators are fixed functions: a block decodes from the first
  transaction when there is one, the sidecars from the second, one sidecar per byte; a
  sidecar made of the byte 255 fails verification; the transition writes one key to the
  state it is given and returns a chosen error; the header read returns a chosen result.
\<close>

definition mock_UnmarshalBeaconBlock ::
  "ProcessProposalRequest \<Rightarrow> nat \<Rightarrow> Version \<Rightarrow> BeaconBlock option \<times> error option" where
  "mock_UnmarshalBeaconBlock req i v =
     (if length (Txs req) \<le> i then (None, Some (ErrOther ''no beacon block in request''))
      else (Some \<lparr>Slot = 1, StateRoot = 0, Header = Txs req ! i\<rparr>, None))"

definition mock_UnmarshalBlobSidecars ::
  "ProcessProposalRequest \<Rightarrow> nat \<Rightarrow> bytes list option \<times> error option" where
  "mock_UnmarshalBlobSidecars req i =
     (if length (Txs req) \<le> i then (None, None)
      else (Some (map (\<lambda>b. [b]) (Txs req ! i)), None))"

definition mock_VerifySidecars :: "ConsensusSidecars \<Rightarrow> error option" where
  "mock_VerifySidecars c =
     (case cs_sidecars c of
        None \<Rightarrow> None
      | Some l \<Rightarrow> if [255] \<in> set l then Some (ErrOther ''kzg mismatch'') else None)"

definition mockService ::
  "error option \<Rightarrow> (ExecutionPayloadHeader option \<times> error option) \<Rightarrow> bool \<Rightarrow> Service" where
  "mockService terr lph opt =
     \<lparr>ActiveForkVersionForSlot = (\<lambda>slot. 4),
      UnmarshalBeaconBlockFromABCIRequest = mock_UnmarshalBeaconBlock,
      UnmarshalBlobSidecarsFromABCIRequest = mock_UnmarshalBlobSidecars,
      GetHeader = (\<lambda>blk. case blk of None \<Rightarrow> [] | Some b \<Rightarrow> Header b),
      VerifySidecars = mock_VerifySidecars,
      Transition = (\<lambda>tc st blk h. (terr, state_write h st [SetKey [1] [2]])),
      GetLatestExecutionPayloadHeader = (\<lambda>h st. lph),
      payloadtime_Next = (\<lambda>ct ts b. max ct (ts + 1)),
      optimisticPayloadBuilds = opt,
      localBuilder_Enabled = True\<rparr>"

definition genesisStores :: stores where
  "genesisStores = [\<lparr>parent = None, buf = Map.empty\<rparr>]"

definition world0 :: world where
  "world0 = \<lparr>stores = genesisStores, forceStartupSyncOnce = True, trace = []\<rparr>"

definition ppReq :: "bytes list \<Rightarrow> ProcessProposalRequest" where
  "ppReq txs = \<lparr>Txs = txs, Height = 1, Time = 100, ProposerAddress = [1]\<rparr>"

text \<open>The calls and launches a stretch of trace holds.\<close>

definition isVerifySidecarsCall :: "event \<Rightarrow> bool" where
  "isVerifySidecarsCall ev = (case ev of VerifySidecarsCall c \<Rightarrow> True | _ \<Rightarrow> False)"

definition isTransitionCall :: "event \<Rightarrow> bool" where
  "isTransitionCall ev = (case ev of TransitionCall tc st blk \<Rightarrow> True | _ \<Rightarrow> False)"

definition isGoTask :: "event \<Rightarrow> bool" where
  "isGoTask ev =
     (case ev of
        GoRebuildPayloadForRejectedBlock st t \<Rightarrow> True
      | GoOptimisticPayloadBuild st blk t \<Rightarrow> True
      | _ \<Rightarrow> False)"


definition stubbornClient :: "unit EngineClient" where
  "stubbornClient =
     \<lparr>ForkchoiceUpdated = (\<lambda>el st attrs v. (INVALID, el)),
      HeaderByHash = (\<lambda>el bh. ((None, None), el)),
      NewPayload = (\<lambda>el pl vhs pbr. ((None, None), el)),
      HasValidHashes = (\<lambda>req. None)\<rparr>"

definition branchStores :: stores where
  "branchStores = genesisStores @ [\<lparr>parent = Some 0, buf = Map.empty\<rparr>]"

definition branchState :: StateDB where
  "branchState = \<lparr>ctx = Some 1, writeFn = Some 1\<rparr>"

definition blk1 :: BeaconBlock where
  "blk1 = \<lparr>Slot = 1, StateRoot = 0, Header = [1]\<rparr>"

definition someRoot :: "(bytes \<Rightarrow> bytes option) \<Rightarrow> Root" where
  "someRoot m = (case m [1] of None \<Rightarrow> 0 | Some v \<Rightarrow> of_nat (length v) + 1)"

text \<open>For the proofs about the stores: what a write does to a layer's buffer, and a
  buffer laid over a view.\<close>

fun buf_write ::
  "(bytes \<Rightarrow> bytes option option) \<Rightarrow> write_op \<Rightarrow> (bytes \<Rightarrow> bytes option option)" where
  "buf_write b (SetKey k v) = b(k \<mapsto> Some v)"
| "buf_write b (DeleteKey k) = b(k \<mapsto> None)"

definition overlay ::
  "(bytes \<Rightarrow> bytes option option) \<Rightarrow> (bytes \<Rightarrow> bytes option) \<Rightarrow> (bytes \<Rightarrow> bytes option)" where
  "overlay b m = (\<lambda>k. case b k of Some w \<Rightarrow> w | None \<Rightarrow> m k)"


text \<open>
  A run of \<^verbatim>\<open>NotifyForkchoiceUpdate\<close> against any client, told from the client's side: the
  request it receives in its \<open>i\<close>-th call (the caller's request first, afterwards that
  request with the head hash replaced by the safe hash), the client's state before
  that call, and its reply to it.
\<close>

fun nthRequest :: "ForkchoiceUpdateRequest \<Rightarrow> nat \<Rightarrow> ForkchoiceUpdateRequest" where
  "nthRequest req 0 = req"
| "nthRequest req (Suc i) =
     \<lparr>State = \<lparr>HeadBlockHash = SafeBlockHash (State req),
               SafeBlockHash = SafeBlockHash (State req),
               FinalizedBlockHash = FinalizedBlockHash (State req)\<rparr>,
      PayloadAttributes = PayloadAttributes req,
      ForkVersion = ForkVersion req\<rparr>"

fun clientRun :: "'el EngineClient \<Rightarrow> 'el \<Rightarrow> ForkchoiceUpdateRequest \<Rightarrow> nat \<Rightarrow> 'el" where
  "clientRun ec el req 0 = el"
| "clientRun ec el req (Suc i) =
     snd (ForkchoiceUpdated ec (clientRun ec el req i) (State (nthRequest req i))
            (PayloadAttributes (nthRequest req i)) (ForkVersion (nthRequest req i)))"

definition nthReply ::
  "'el EngineClient \<Rightarrow> 'el \<Rightarrow> ForkchoiceUpdateRequest \<Rightarrow> nat \<Rightarrow> fcu_reply" where
  "nthReply ec el req i =
     fst (ForkchoiceUpdated ec (clientRun ec el req i) (State (nthRequest req i))
            (PayloadAttributes (nthRequest req i)) (ForkVersion (nthRequest req i)))"

definition nthErr ::
  "'el EngineClient \<Rightarrow> 'el \<Rightarrow> ForkchoiceUpdateRequest \<Rightarrow> nat \<Rightarrow> error option" where
  "nthErr ec el req i = snd (snd (nthReply ec el req i))"

text \<open>Section 4.2 of the specification, in its words: what the adapter makes of a reply
  that is not invalid (rows \<open>VALID\<close>, \<open>SYNCING\<close>/\<open>ACCEPTED\<close>, transport/undefined), and
  what a call that retried makes of the retry's result ("on return, surface
  \<open>BadBlockProduced\<close>"; an error of the retry is handed on).\<close>

fun classify :: "fcu_reply \<Rightarrow> fcu_reply" where
  "classify (payloadID, latestValidHash, err) =
     (if errors_Is err ErrSyncingPayloadStatus \<or> errors_Is err ErrAcceptedPayloadStatus
      then (payloadID, None, None)
      else if err = None then (payloadID, latestValidHash, None)
      else (None, None, err))"

fun surface :: "fcu_reply \<Rightarrow> fcu_reply" where
  "surface (payloadID, latestValidHash, err) =
     (if err = None then (payloadID, latestValidHash, Some ErrBadBlockProduced)
      else (None, None, err))"


section \<open>Properties of the error values\<close>

lemma chain_Is_sentinel:
  "is_sentinel t \<Longrightarrow> chain_Is e t = (root_cause e = t)"
  by (induction e) (auto simp: is_sentinel_def split: error.splits)

lemma errors_Is_None [simp]: "errors_Is None t = False"
  by (simp add: errors_Is_def)

lemma errors_Is_simps [simp]:
  "errors_Is (Some (Wrapf m e)) t = (Wrapf m e = t \<or> errors_Is (Some e) t)"
  "errors_Is (Some ErrAcceptedPayloadStatus) t = (ErrAcceptedPayloadStatus = t)"
  "errors_Is (Some ErrSyncingPayloadStatus) t = (ErrSyncingPayloadStatus = t)"
  "errors_Is (Some ErrInvalidPayloadStatus) t = (ErrInvalidPayloadStatus = t)"
  "errors_Is (Some ErrInvalidBlockHashPayloadStatus) t = (ErrInvalidBlockHashPayloadStatus = t)"
  "errors_Is (Some (ErrOther s)) t = (ErrOther s = t)"
  by (simp_all add: errors_Is_def)

lemma invalid_not_accepted:
  "errors_Is err ErrInvalidPayloadStatus \<or> errors_Is err ErrInvalidBlockHashPayloadStatus \<Longrightarrow>
     \<not> errors_Is err ErrAcceptedPayloadStatus \<and> \<not> errors_Is err ErrSyncingPayloadStatus"
  by (cases err) (auto simp: errors_Is_def chain_Is_sentinel is_sentinel_def)


section \<open>The execution engine adapter\<close>

lemma mock_reply:
  "ForkchoiceUpdated mockClient
     \<lparr>fcu_script = r # rs, known_blocks = k, np_reply = np, el_calls = cs\<rparr> st a v
   = (r, \<lparr>fcu_script = rs, known_blocks = k, np_reply = np,
          el_calls = cs @ [ForkchoiceUpdatedCall st]\<rparr>)"
  by (simp add: mockClient_def mock_ForkchoiceUpdated_def)

text \<open>
  C5. For each reply of the execution client to \<^verbatim>\<open>forkchoiceUpdated\<close>,
  \<^verbatim>\<open>NotifyForkchoiceUpdate\<close> classifies as the table of section 4.2 says: a reply without
  error (\<open>VALID\<close>) returns the payload id and the latest valid hash with no error;
  \<open>SYNCING\<close> or \<open>ACCEPTED\<close> returns the payload id, a nil hash and no error; on
  \<open>INVALID\<close> or \<open>INVALID_BLOCK_HASH\<close> the adapter runs again from the client's next
  state on the request whose head hash is the safe hash (safe and finalized hashes,
  attributes and fork version as they were), and a retry that succeeds surfaces
  \<open>ErrBadBlockProduced\<close> with the retry's values, while a retry that fails returns the
  retry's error; any other error is returned as it is.
\<close>

theorem NotifyForkchoiceUpdate_classification:
  "ForkchoiceUpdated ec el (State req) (PayloadAttributes req) (ForkVersion req)
     = ((payloadID, latestValidHash, err), el') \<longrightarrow>
   (err = None \<longrightarrow>
      NotifyForkchoiceUpdate ec el req = Some ((payloadID, latestValidHash, None), el', req)) \<and>
   (errors_Is err ErrSyncingPayloadStatus \<or> errors_Is err ErrAcceptedPayloadStatus \<longrightarrow>
      NotifyForkchoiceUpdate ec el req = Some ((payloadID, None, None), el', req)) \<and>
   (errors_Is err ErrInvalidPayloadStatus \<or> errors_Is err ErrInvalidBlockHashPayloadStatus \<longrightarrow>
      (\<forall>payloadID' latestValidHash' el'' req''.
         NotifyForkchoiceUpdate ec el'
             \<lparr>State = \<lparr>HeadBlockHash = SafeBlockHash (State req),
                       SafeBlockHash = SafeBlockHash (State req),
                       FinalizedBlockHash = FinalizedBlockHash (State req)\<rparr>,
              PayloadAttributes = PayloadAttributes req, ForkVersion = ForkVersion req\<rparr>
           = Some ((payloadID', latestValidHash', None), el'', req'') \<longrightarrow>
         NotifyForkchoiceUpdate ec el req
           = Some ((payloadID', latestValidHash', Some ErrBadBlockProduced), el'', req'')) \<and>
      (\<forall>payloadID' latestValidHash' e' el'' req''.
         NotifyForkchoiceUpdate ec el'
             \<lparr>State = \<lparr>HeadBlockHash = SafeBlockHash (State req),
                       SafeBlockHash = SafeBlockHash (State req),
                       FinalizedBlockHash = FinalizedBlockHash (State req)\<rparr>,
              PayloadAttributes = PayloadAttributes req, ForkVersion = ForkVersion req\<rparr>
           = Some ((payloadID', latestValidHash', Some e'), el'', req'') \<longrightarrow>
         NotifyForkchoiceUpdate ec el req = Some ((None, None, Some e'), el'', req'')) \<and>
      (NotifyForkchoiceUpdate ec el'
             \<lparr>State = \<lparr>HeadBlockHash = SafeBlockHash (State req),
                       SafeBlockHash = SafeBlockHash (State req),
                       FinalizedBlockHash = FinalizedBlockHash (State req)\<rparr>,
              PayloadAttributes = PayloadAttributes req, ForkVersion = ForkVersion req\<rparr> = None \<longrightarrow>
         NotifyForkchoiceUpdate ec el req = None)) \<and>
   (err \<noteq> None \<and>
    \<not> errors_Is err ErrSyncingPayloadStatus \<and> \<not> errors_Is err ErrAcceptedPayloadStatus \<and>
    \<not> errors_Is err ErrInvalidPayloadStatus \<and> \<not> errors_Is err ErrInvalidBlockHashPayloadStatus \<longrightarrow>
      NotifyForkchoiceUpdate ec el req = Some ((None, None, err), el', req))"
proof (intro impI)
  assume r: "ForkchoiceUpdated ec el (State req) (PayloadAttributes req) (ForkVersion req)
     = ((payloadID, latestValidHash, err), el')"
  let ?retry = "\<lparr>State = \<lparr>HeadBlockHash = SafeBlockHash (State req),
                       SafeBlockHash = SafeBlockHash (State req),
                       FinalizedBlockHash = FinalizedBlockHash (State req)\<rparr>,
              PayloadAttributes = PayloadAttributes req, ForkVersion = ForkVersion req\<rparr>"
  have rt: "req\<lparr>State := (State req)\<lparr>HeadBlockHash := SafeBlockHash (State req)\<rparr>\<rparr> = ?retry"
    by simp
  have u: "NotifyForkchoiceUpdate ec el req =
     (if errors_Is err ErrAcceptedPayloadStatus \<or> errors_Is err ErrSyncingPayloadStatus then
        Some ((payloadID, None, None), el', req)
      else if errors_Is err ErrInvalidPayloadStatus \<or>
              errors_Is err ErrInvalidBlockHashPayloadStatus then
        NotifyForkchoiceUpdate ec el' ?retry \<bind>
          (\<lambda>((payloadID', latestValidHash', err'), el'', req'').
             if err' \<noteq> None then Some ((None, None, err'), el'', req'')
             else Some ((payloadID', latestValidHash', Some ErrBadBlockProduced), el'', req''))
      else if err \<noteq> None then Some ((None, None, err), el', req)
      else Some ((payloadID, latestValidHash, None), el', req))"
    by (subst NotifyForkchoiceUpdate.simps) (simp only: r prod.case rt)
  show "(err = None \<longrightarrow>
      NotifyForkchoiceUpdate ec el req = Some ((payloadID, latestValidHash, None), el', req)) \<and>
   (errors_Is err ErrSyncingPayloadStatus \<or> errors_Is err ErrAcceptedPayloadStatus \<longrightarrow>
      NotifyForkchoiceUpdate ec el req = Some ((payloadID, None, None), el', req)) \<and>
   (errors_Is err ErrInvalidPayloadStatus \<or> errors_Is err ErrInvalidBlockHashPayloadStatus \<longrightarrow>
      (\<forall>payloadID' latestValidHash' el'' req''.
         NotifyForkchoiceUpdate ec el' ?retry
           = Some ((payloadID', latestValidHash', None), el'', req'') \<longrightarrow>
         NotifyForkchoiceUpdate ec el req
           = Some ((payloadID', latestValidHash', Some ErrBadBlockProduced), el'', req'')) \<and>
      (\<forall>payloadID' latestValidHash' e' el'' req''.
         NotifyForkchoiceUpdate ec el' ?retry
           = Some ((payloadID', latestValidHash', Some e'), el'', req'') \<longrightarrow>
         NotifyForkchoiceUpdate ec el req = Some ((None, None, Some e'), el'', req'')) \<and>
      (NotifyForkchoiceUpdate ec el' ?retry = None \<longrightarrow>
         NotifyForkchoiceUpdate ec el req = None)) \<and>
   (err \<noteq> None \<and>
    \<not> errors_Is err ErrSyncingPayloadStatus \<and> \<not> errors_Is err ErrAcceptedPayloadStatus \<and>
    \<not> errors_Is err ErrInvalidPayloadStatus \<and> \<not> errors_Is err ErrInvalidBlockHashPayloadStatus \<longrightarrow>
      NotifyForkchoiceUpdate ec el req = Some ((None, None, err), el', req))"
    using invalid_not_accepted [of err] by (auto simp: u)
qed

text \<open>The witness of C5: a call-recording client scripted with each of \<open>VALID\<close>,
  \<open>ACCEPTED\<close>, \<open>SYNCING\<close>, \<open>INVALID\<close> (retry succeeds), \<open>INVALID_BLOCK_HASH\<close> (retry
  fails) and a transport error; the retry reaches the client with head 2, the safe hash.\<close>

theorem NotifyForkchoiceUpdate_classification_witness:
  "NotifyForkchoiceUpdate mockClient (mockEL [VALID] (None, None)) fcuReq
     = Some ((Some 5, Some 9, None),
             \<lparr>fcu_script = [], known_blocks = [], np_reply = (None, None),
              el_calls = [ForkchoiceUpdatedCall
                \<lparr>HeadBlockHash = 3, SafeBlockHash = 2, FinalizedBlockHash = 1\<rparr>]\<rparr>,
             fcuReq) \<and>
   NotifyForkchoiceUpdate mockClient (mockEL [ACCEPTED] (None, None)) fcuReq
     = Some ((Some 5, None, None),
             \<lparr>fcu_script = [], known_blocks = [], np_reply = (None, None),
              el_calls = [ForkchoiceUpdatedCall
                \<lparr>HeadBlockHash = 3, SafeBlockHash = 2, FinalizedBlockHash = 1\<rparr>]\<rparr>,
             fcuReq) \<and>
   NotifyForkchoiceUpdate mockClient (mockEL [SYNCING] (None, None)) fcuReq
     = Some ((Some 5, None, None),
             \<lparr>fcu_script = [], known_blocks = [], np_reply = (None, None),
              el_calls = [ForkchoiceUpdatedCall
                \<lparr>HeadBlockHash = 3, SafeBlockHash = 2, FinalizedBlockHash = 1\<rparr>]\<rparr>,
             fcuReq) \<and>
   NotifyForkchoiceUpdate mockClient (mockEL [INVALID, VALID] (None, None)) fcuReq
     = Some ((Some 5, Some 9, Some ErrBadBlockProduced),
             \<lparr>fcu_script = [], known_blocks = [], np_reply = (None, None),
              el_calls =
                [ForkchoiceUpdatedCall
                   \<lparr>HeadBlockHash = 3, SafeBlockHash = 2, FinalizedBlockHash = 1\<rparr>,
                 ForkchoiceUpdatedCall
                   \<lparr>HeadBlockHash = 2, SafeBlockHash = 2, FinalizedBlockHash = 1\<rparr>]\<rparr>,
             \<lparr>State = \<lparr>HeadBlockHash = 2, SafeBlockHash = 2, FinalizedBlockHash = 1\<rparr>,
              PayloadAttributes = None, ForkVersion = 4\<rparr>) \<and>
   NotifyForkchoiceUpdate mockClient
       (mockEL [INVALID_BLOCK_HASH, (None, None, Some (ErrOther ''timeout''))] (None, None)) fcuReq
     = Some ((None, None, Some (ErrOther ''timeout'')),
             \<lparr>fcu_script = [], known_blocks = [], np_reply = (None, None),
              el_calls =
                [ForkchoiceUpdatedCall
                   \<lparr>HeadBlockHash = 3, SafeBlockHash = 2, FinalizedBlockHash = 1\<rparr>,
                 ForkchoiceUpdatedCall
                   \<lparr>HeadBlockHash = 2, SafeBlockHash = 2, FinalizedBlockHash = 1\<rparr>]\<rparr>,
             \<lparr>State = \<lparr>HeadBlockHash = 2, SafeBlockHash = 2, FinalizedBlockHash = 1\<rparr>,
              PayloadAttributes = None, ForkVersion = 4\<rparr>) \<and>
   NotifyForkchoiceUpdate mockClient
       (mockEL [(None, None, Some (ErrOther ''timeout''))] (None, None)) fcuReq
     = Some ((None, None, Some (ErrOther ''timeout'')),
             \<lparr>fcu_script = [], known_blocks = [], np_reply = (None, None),
              el_calls = [ForkchoiceUpdatedCall
                \<lparr>HeadBlockHash = 3, SafeBlockHash = 2, FinalizedBlockHash = 1\<rparr>]\<rparr>,
             fcuReq)"
proof -
  let ?np = "(None, None) :: ExecutionHash option \<times> error option"
  let ?st0 = "\<lparr>HeadBlockHash = 3, SafeBlockHash = 2, FinalizedBlockHash = 1 :: ExecutionHash\<rparr>"
  let ?st1 = "\<lparr>HeadBlockHash = 2, SafeBlockHash = 2, FinalizedBlockHash = 1 :: ExecutionHash\<rparr>"
  let ?retry = "\<lparr>State = ?st1, PayloadAttributes = None, ForkVersion = 4\<rparr>"
  let ?el1 = "\<lambda>rs. \<lparr>fcu_script = rs, known_blocks = [], np_reply = ?np,
      el_calls = [ForkchoiceUpdatedCall ?st0]\<rparr>"
  let ?el2 = "\<lparr>fcu_script = [], known_blocks = [], np_reply = ?np,
      el_calls = [ForkchoiceUpdatedCall ?st0, ForkchoiceUpdatedCall ?st1]\<rparr>"
  have first: "ForkchoiceUpdated mockClient (mockEL (r # rs) ?np) (State fcuReq)
      (PayloadAttributes fcuReq) (ForkVersion fcuReq) = (r, ?el1 rs)" for r rs
    by (simp add: mockEL_def mock_reply fcuReq_def)
  have second: "ForkchoiceUpdated mockClient (?el1 [r]) (State ?retry)
      (PayloadAttributes ?retry) (ForkVersion ?retry) = (r, ?el2)" for r
    by (simp add: mock_reply)
  have rq: "\<lparr>State = \<lparr>HeadBlockHash = SafeBlockHash (State fcuReq),
                       SafeBlockHash = SafeBlockHash (State fcuReq),
                       FinalizedBlockHash = FinalizedBlockHash (State fcuReq)\<rparr>,
              PayloadAttributes = PayloadAttributes fcuReq, ForkVersion = ForkVersion fcuReq\<rparr>
        = ?retry"
    by (simp add: fcuReq_def)
  from NotifyForkchoiceUpdate_classification [where ec = mockClient
      and el = "mockEL [VALID] ?np" and req = fcuReq] first [of VALID "[]"]
  have 1: "NotifyForkchoiceUpdate mockClient (mockEL [VALID] ?np) fcuReq
     = Some ((Some 5, Some 9, None), ?el1 [], fcuReq)" by (simp add: VALID_def)
  from NotifyForkchoiceUpdate_classification [where ec = mockClient
      and el = "mockEL [ACCEPTED] ?np" and req = fcuReq] first [of ACCEPTED "[]"]
  have 2: "NotifyForkchoiceUpdate mockClient (mockEL [ACCEPTED] ?np) fcuReq
     = Some ((Some 5, None, None), ?el1 [], fcuReq)" by (simp add: ACCEPTED_def)
  from NotifyForkchoiceUpdate_classification [where ec = mockClient
      and el = "mockEL [SYNCING] ?np" and req = fcuReq] first [of SYNCING "[]"]
  have 3: "NotifyForkchoiceUpdate mockClient (mockEL [SYNCING] ?np) fcuReq
     = Some ((Some 5, None, None), ?el1 [], fcuReq)" by (simp add: SYNCING_def)
  from NotifyForkchoiceUpdate_classification [where ec = mockClient
      and el = "?el1 [VALID]" and req = ?retry] second [of VALID]
  have r4: "NotifyForkchoiceUpdate mockClient (?el1 [VALID]) ?retry
     = Some ((Some 5, Some 9, None), ?el2, ?retry)" by (simp add: VALID_def)
  from NotifyForkchoiceUpdate_classification [where ec = mockClient
      and el = "mockEL [INVALID, VALID] ?np" and req = fcuReq] first [of INVALID "[VALID]"] r4
  have 4: "NotifyForkchoiceUpdate mockClient (mockEL [INVALID, VALID] ?np) fcuReq
     = Some ((Some 5, Some 9, Some ErrBadBlockProduced), ?el2, ?retry)"
    by (simp add: INVALID_def rq)
  from NotifyForkchoiceUpdate_classification [where ec = mockClient
      and el = "?el1 [(None, None, Some (ErrOther ''timeout''))]" and req = ?retry]
    second [of "(None, None, Some (ErrOther ''timeout''))"]
  have r5: "NotifyForkchoiceUpdate mockClient (?el1 [(None, None, Some (ErrOther ''timeout''))])
      ?retry = Some ((None, None, Some (ErrOther ''timeout'')), ?el2, ?retry)" by simp
  from NotifyForkchoiceUpdate_classification [where ec = mockClient
      and el = "mockEL [INVALID_BLOCK_HASH, (None, None, Some (ErrOther ''timeout''))] ?np"
      and req = fcuReq]
    first [of INVALID_BLOCK_HASH "[(None, None, Some (ErrOther ''timeout''))]"] r5
  have 5: "NotifyForkchoiceUpdate mockClient
       (mockEL [INVALID_BLOCK_HASH, (None, None, Some (ErrOther ''timeout''))] ?np) fcuReq
     = Some ((None, None, Some (ErrOther ''timeout'')), ?el2, ?retry)"
    by (simp add: INVALID_BLOCK_HASH_def rq)
  from NotifyForkchoiceUpdate_classification [where ec = mockClient
      and el = "mockEL [(None, None, Some (ErrOther ''timeout''))] ?np" and req = fcuReq]
    first [of "(None, None, Some (ErrOther ''timeout''))" "[]"]
  have 6: "NotifyForkchoiceUpdate mockClient
       (mockEL [(None, None, Some (ErrOther ''timeout''))] ?np) fcuReq
     = Some ((None, None, Some (ErrOther ''timeout'')), ?el1 [], fcuReq)" by simp
  from 1 2 3 4 5 6 show ?thesis by simp
qed




text \<open>With \<^verbatim>\<open>SkipIfExists\<close> set, a request that passes the hash check returns nil whatever
  the client answers about the header.\<close>

lemma VerifyAndNotifyNewPayload_skip:
  "HasValidHashes ec req = None \<Longrightarrow> SkipIfExists req \<Longrightarrow>
     fst (VerifyAndNotifyNewPayload ec el req) = None \<and>
     snd (VerifyAndNotifyNewPayload ec el req)
       = snd (HeaderByHash ec el (BlockHash (ExecutionPayload req)))"
  by (simp add: VerifyAndNotifyNewPayload_def split: prod.splits)

text \<open>
  C2. The claim: with \<^verbatim>\<open>SkipIfExists\<close> set, the adapter short-circuits only when the block
  is known to the execution client, and still submits the payload otherwise. The code
  at a client that does not know the block and would answer \<open>INVALID\<close>: nil is
  returned and the only call the client receives is the header lookup.
\<close>

theorem VerifyAndNotifyNewPayload_skips_unknown_block:
  "VerifyAndNotifyNewPayload mockClient (mockEL [] (None, Some ErrInvalidPayloadStatus))
       (npReq True False)
     = (None, (mockEL [] (None, Some ErrInvalidPayloadStatus))
                \<lparr>el_calls := [HeaderByHashCall 3]\<rparr>)"
  by (simp add: VerifyAndNotifyNewPayload_def mockClient_def mockEL_def npReq_def
      mock_HeaderByHash_def)

text \<open>The adapter against any client, one call at a time.\<close>

lemma retry_request:
  "req\<lparr>State := (State req)\<lparr>HeadBlockHash := SafeBlockHash (State req)\<rparr>\<rparr>
     = nthRequest req (Suc 0)"
  by simp

lemma nthRequest_retry: "nthRequest (nthRequest req (Suc 0)) i = nthRequest req (Suc i)"
  by (cases i) simp_all

lemma clientRun_shift:
  "clientRun ec (clientRun ec el req (Suc 0)) (nthRequest req (Suc 0)) i
     = clientRun ec el req (Suc i)"
proof (induction i)
  case 0
  show ?case by simp
next
  case (Suc i)
  show ?case
    using Suc.IH nthRequest_retry [of req i]
    by (simp del: nthRequest.simps clientRun.simps add: clientRun.simps(2) [of ec _ _ "Suc i"]
        clientRun.simps(2) [of ec "clientRun ec el req (Suc 0)" "nthRequest req (Suc 0)" i])
qed

lemma nthErr_shift:
  "nthErr ec (clientRun ec el req (Suc 0)) (nthRequest req (Suc 0)) i = nthErr ec el req (Suc i)"
  using clientRun_shift [of ec el req i] nthRequest_retry [of req i]
  by (simp del: nthRequest.simps clientRun.simps add: nthErr_def nthReply_def)

lemma nthReply_shift:
  "nthReply ec (clientRun ec el req (Suc 0)) (nthRequest req (Suc 0)) i
     = nthReply ec el req (Suc i)"
  using clientRun_shift [of ec el req i] nthRequest_retry [of req i]
  by (simp del: nthRequest.simps clientRun.simps add: nthReply_def)

lemma NotifyForkchoiceUpdate_other:
  assumes "\<not> (errors_Is (nthErr ec el req 0) ErrInvalidPayloadStatus \<or>
              errors_Is (nthErr ec el req 0) ErrInvalidBlockHashPayloadStatus)"
  shows "NotifyForkchoiceUpdate ec el req
           = Some (classify (nthReply ec el req 0), clientRun ec el req (Suc 0), req)"
proof -
  obtain p l e el' where r:
    "ForkchoiceUpdated ec el (State req) (PayloadAttributes req) (ForkVersion req)
       = ((p, l, e), el')"
    by (metis prod.exhaust)
  with assms show ?thesis
    by (subst NotifyForkchoiceUpdate.simps) (auto simp: nthErr_def nthReply_def)
qed

lemma NotifyForkchoiceUpdate_invalid:
  assumes "errors_Is (nthErr ec el req 0) ErrInvalidPayloadStatus \<or>
           errors_Is (nthErr ec el req 0) ErrInvalidBlockHashPayloadStatus"
  shows "NotifyForkchoiceUpdate ec el req
           = NotifyForkchoiceUpdate ec (clientRun ec el req (Suc 0)) (nthRequest req (Suc 0)) \<bind>
               (\<lambda>(r, el'', req''). Some (surface r, el'', req''))"
proof -
  obtain p l e el' where r:
    "ForkchoiceUpdated ec el (State req) (PayloadAttributes req) (ForkVersion req)
       = ((p, l, e), el')"
    by (metis prod.exhaust)
  from assms r have inv: "errors_Is e ErrInvalidPayloadStatus \<or>
      errors_Is e ErrInvalidBlockHashPayloadStatus"
    by (simp add: nthErr_def nthReply_def)
  from invalid_not_accepted [OF inv]
  have na: "\<not> errors_Is e ErrAcceptedPayloadStatus" "\<not> errors_Is e ErrSyncingPayloadStatus"
    by simp_all
  have el': "clientRun ec el req (Suc 0) = el'" using r by simp
  show ?thesis
    apply (subst NotifyForkchoiceUpdate.simps)
    apply (simp only: r prod.case na inv if_True if_False simp_thms retry_request el')
    apply (cases "NotifyForkchoiceUpdate ec el' (nthRequest req (Suc 0))")
     apply (auto simp del: nthRequest.simps)
    done
qed

lemma NotifyForkchoiceUpdate_run:
  "(\<forall>i<n. errors_Is (nthErr ec el req i) ErrInvalidPayloadStatus \<or>
           errors_Is (nthErr ec el req i) ErrInvalidBlockHashPayloadStatus) \<Longrightarrow>
   \<not> (errors_Is (nthErr ec el req n) ErrInvalidPayloadStatus \<or>
      errors_Is (nthErr ec el req n) ErrInvalidBlockHashPayloadStatus) \<Longrightarrow>
   NotifyForkchoiceUpdate ec el req
     = Some ((surface ^^ n) (classify (nthReply ec el req n)),
             clientRun ec el req (Suc n), nthRequest req n)"
proof (induction n arbitrary: el req)
  case 0
  from NotifyForkchoiceUpdate_other [OF "0.prems"(2)] show ?case by simp
next
  case (Suc n)
  let ?el1 = "clientRun ec el req (Suc 0)" and ?r1 = "nthRequest req (Suc 0)"
  from Suc.prems(1) have first: "errors_Is (nthErr ec el req 0) ErrInvalidPayloadStatus \<or>
      errors_Is (nthErr ec el req 0) ErrInvalidBlockHashPayloadStatus" by blast
  have a: "\<forall>i<n. errors_Is (nthErr ec ?el1 ?r1 i) ErrInvalidPayloadStatus \<or>
           errors_Is (nthErr ec ?el1 ?r1 i) ErrInvalidBlockHashPayloadStatus"
    unfolding nthErr_shift using Suc.prems(1) by blast
  have b: "\<not> (errors_Is (nthErr ec ?el1 ?r1 n) ErrInvalidPayloadStatus \<or>
      errors_Is (nthErr ec ?el1 ?r1 n) ErrInvalidBlockHashPayloadStatus)"
    unfolding nthErr_shift by (rule Suc.prems(2))
  from Suc.IH [OF a b]
  have "NotifyForkchoiceUpdate ec ?el1 ?r1
     = Some ((surface ^^ n) (classify (nthReply ec el req (Suc n))),
             clientRun ec el req (Suc (Suc n)), nthRequest req (Suc n))"
    by (simp only: nthReply_shift clientRun_shift nthRequest_retry)
  then show ?case
    by (simp only: NotifyForkchoiceUpdate_invalid [OF first]) simp
qed

lemma NotifyForkchoiceUpdate_diverges_aux:
  assumes "NotifyForkchoiceUpdate ec el req = Some r"
  shows "\<exists>i. \<not> (errors_Is (nthErr ec el req i) ErrInvalidPayloadStatus \<or>
               errors_Is (nthErr ec el req i) ErrInvalidBlockHashPayloadStatus)"
proof (rule NotifyForkchoiceUpdate.raw_induct
    [where P = "\<lambda>ec el req r. \<exists>i. \<not> (errors_Is (nthErr ec el req i) ErrInvalidPayloadStatus \<or>
               errors_Is (nthErr ec el req i) ErrInvalidBlockHashPayloadStatus)", OF _ assms])
  fix f :: "'a EngineClient \<Rightarrow> 'a \<Rightarrow> ForkchoiceUpdateRequest
      \<Rightarrow> (fcu_reply \<times> 'a \<times> ForkchoiceUpdateRequest) option"
  fix ec el req r
  assume IH: "\<And>ec el req r. f ec el req = Some r \<Longrightarrow>
      \<exists>i. \<not> (errors_Is (nthErr ec el req i) ErrInvalidPayloadStatus \<or>
               errors_Is (nthErr ec el req i) ErrInvalidBlockHashPayloadStatus)"
  assume eq: "(case ForkchoiceUpdated ec el (State req) (PayloadAttributes req) (ForkVersion req) of
      ((payloadID, latestValidHash, err), el') \<Rightarrow>
        if errors_Is err ErrAcceptedPayloadStatus \<or> errors_Is err ErrSyncingPayloadStatus
        then Some ((payloadID, None, None), el', req)
        else if errors_Is err ErrInvalidPayloadStatus \<or>
                errors_Is err ErrInvalidBlockHashPayloadStatus then
          f ec el' (req\<lparr>State := (State req)\<lparr>HeadBlockHash := SafeBlockHash (State req)\<rparr>\<rparr>) \<bind>
            (\<lambda>((payloadID', latestValidHash', err'), el'', req'').
               if err' \<noteq> None then Some ((None, None, err'), el'', req'')
               else Some ((payloadID', latestValidHash', Some ErrBadBlockProduced), el'', req''))
        else if err \<noteq> None then Some ((None, None, err), el', req)
        else Some ((payloadID, latestValidHash, None), el', req)) = Some r"
  show "\<exists>i. \<not> (errors_Is (nthErr ec el req i) ErrInvalidPayloadStatus \<or>
               errors_Is (nthErr ec el req i) ErrInvalidBlockHashPayloadStatus)"
  proof (cases "errors_Is (nthErr ec el req 0) ErrInvalidPayloadStatus \<or>
               errors_Is (nthErr ec el req 0) ErrInvalidBlockHashPayloadStatus")
    case False
    then show ?thesis by blast
  next
    case True
    obtain p l e el' where r:
      "ForkchoiceUpdated ec el (State req) (PayloadAttributes req) (ForkVersion req)
         = ((p, l, e), el')"
      by (metis prod.exhaust)
    from True r have inv: "errors_Is e ErrInvalidPayloadStatus \<or>
        errors_Is e ErrInvalidBlockHashPayloadStatus"
      by (simp add: nthErr_def nthReply_def)
    from invalid_not_accepted [OF inv]
    have na: "\<not> errors_Is e ErrAcceptedPayloadStatus" "\<not> errors_Is e ErrSyncingPayloadStatus"
      by simp_all
    have el': "clientRun ec el req (Suc 0) = el'" using r by simp
    from eq obtain r' where "f ec el' (nthRequest req (Suc 0)) = Some r'"
      by (simp only: r prod.case na inv if_True if_False simp_thms retry_request)
         (auto split: bind_splits)
    from IH [OF this] obtain i where
      "\<not> (errors_Is (nthErr ec el' (nthRequest req (Suc 0)) i) ErrInvalidPayloadStatus \<or>
          errors_Is (nthErr ec el' (nthRequest req (Suc 0)) i) ErrInvalidBlockHashPayloadStatus)"
      by blast
    then have "\<not> (errors_Is (nthErr ec el req (Suc i)) ErrInvalidPayloadStatus \<or>
          errors_Is (nthErr ec el req (Suc i)) ErrInvalidBlockHashPayloadStatus)"
      using nthErr_shift [of ec el req i] el'
      by (simp del: nthRequest.simps clientRun.simps)
    then show ?thesis by blast
  qed
qed

lemma NotifyForkchoiceUpdate_diverges:
  "(\<forall>i. errors_Is (nthErr ec el req i) ErrInvalidPayloadStatus \<or>
        errors_Is (nthErr ec el req i) ErrInvalidBlockHashPayloadStatus) \<Longrightarrow>
   NotifyForkchoiceUpdate ec el req = None"
  using NotifyForkchoiceUpdate_diverges_aux [of ec el req]
  by (cases "NotifyForkchoiceUpdate ec el req") auto

lemma stubborn_reply: "nthErr stubbornClient el req i = Some ErrInvalidPayloadStatus"
  by (simp add: nthErr_def nthReply_def stubbornClient_def INVALID_def)

text \<open>
  C3, as stated, fails: "at most one retry, a second \<open>INVALID\<close> reply does not trigger
  further recursion". Against a client that replies \<open>INVALID\<close> twice and then \<open>VALID\<close>,
  the adapter calls \<^verbatim>\<open>forkchoiceUpdated\<close> three times: the second \<open>INVALID\<close> triggers a
  second retry.
\<close>

theorem NotifyForkchoiceUpdate_retry_counterexample:
  "NotifyForkchoiceUpdate mockClient (mockEL [INVALID, INVALID, VALID] (None, None)) fcuReq
     = Some ((None, None, Some ErrBadBlockProduced),
          \<lparr>fcu_script = [], known_blocks = [], np_reply = (None, None),
           el_calls =
             [ForkchoiceUpdatedCall
                \<lparr>HeadBlockHash = 3, SafeBlockHash = 2, FinalizedBlockHash = 1\<rparr>,
              ForkchoiceUpdatedCall
                \<lparr>HeadBlockHash = 2, SafeBlockHash = 2, FinalizedBlockHash = 1\<rparr>,
              ForkchoiceUpdatedCall
                \<lparr>HeadBlockHash = 2, SafeBlockHash = 2, FinalizedBlockHash = 1\<rparr>]\<rparr>,
          \<lparr>State = \<lparr>HeadBlockHash = 2, SafeBlockHash = 2, FinalizedBlockHash = 1\<rparr>,
           PayloadAttributes = None, ForkVersion = 4\<rparr>)"
  by code_simp

text \<open>
  C3, amended. Against every client, \<^verbatim>\<open>NotifyForkchoiceUpdate\<close> retries once for every
  \<open>INVALID\<close> or \<open>INVALID_BLOCK_HASH\<close> reply and returns at the first other reply: if the
  client's first \<open>n\<close> replies are invalid and the next one is not, the adapter returns
  after exactly \<open>n + 1\<close> calls, with that reply classified and \<open>ErrBadBlockProduced\<close>
  (or the retry's error) surfaced \<open>n\<close> times; if every reply is invalid it does not
  return. Every call after the first carries the head hash equal to the safe hash.
\<close>

theorem NotifyForkchoiceUpdate_retries:
  "((\<forall>i<n. errors_Is (nthErr ec el req i) ErrInvalidPayloadStatus \<or>
            errors_Is (nthErr ec el req i) ErrInvalidBlockHashPayloadStatus) \<and>
    \<not> (errors_Is (nthErr ec el req n) ErrInvalidPayloadStatus \<or>
       errors_Is (nthErr ec el req n) ErrInvalidBlockHashPayloadStatus) \<longrightarrow>
      NotifyForkchoiceUpdate ec el req
        = Some ((surface ^^ n) (classify (nthReply ec el req n)),
                clientRun ec el req (Suc n), nthRequest req n)) \<and>
   ((\<forall>i. errors_Is (nthErr ec el req i) ErrInvalidPayloadStatus \<or>
         errors_Is (nthErr ec el req i) ErrInvalidBlockHashPayloadStatus) \<longrightarrow>
      NotifyForkchoiceUpdate ec el req = None) \<and>
   (\<forall>i. HeadBlockHash (State (nthRequest req (Suc i))) = SafeBlockHash (State req) \<and>
        SafeBlockHash (State (nthRequest req (Suc i))) = SafeBlockHash (State req) \<and>
        FinalizedBlockHash (State (nthRequest req (Suc i))) = FinalizedBlockHash (State req) \<and>
        PayloadAttributes (nthRequest req (Suc i)) = PayloadAttributes req \<and>
        ForkVersion (nthRequest req (Suc i)) = ForkVersion req)"
  using NotifyForkchoiceUpdate_run [of n ec el req] NotifyForkchoiceUpdate_diverges [of ec el req]
  by simp

text \<open>The witness of C3: three invalid replies, then \<open>SYNCING\<close>, recorded by the client
  as four calls; and a client that replies \<open>INVALID\<close> for ever.\<close>

theorem NotifyForkchoiceUpdate_retries_witness:
  "NotifyForkchoiceUpdate mockClient
       (mockEL [INVALID, INVALID_BLOCK_HASH, INVALID, SYNCING, VALID] (None, None)) fcuReq
     = Some ((None, None, Some ErrBadBlockProduced),
          \<lparr>fcu_script = [VALID], known_blocks = [], np_reply = (None, None),
           el_calls =
             [ForkchoiceUpdatedCall
                \<lparr>HeadBlockHash = 3, SafeBlockHash = 2, FinalizedBlockHash = 1\<rparr>,
              ForkchoiceUpdatedCall
                \<lparr>HeadBlockHash = 2, SafeBlockHash = 2, FinalizedBlockHash = 1\<rparr>,
              ForkchoiceUpdatedCall
                \<lparr>HeadBlockHash = 2, SafeBlockHash = 2, FinalizedBlockHash = 1\<rparr>,
              ForkchoiceUpdatedCall
                \<lparr>HeadBlockHash = 2, SafeBlockHash = 2, FinalizedBlockHash = 1\<rparr>]\<rparr>,
          \<lparr>State = \<lparr>HeadBlockHash = 2, SafeBlockHash = 2, FinalizedBlockHash = 1\<rparr>,
           PayloadAttributes = None, ForkVersion = 4\<rparr>) \<and>
   NotifyForkchoiceUpdate stubbornClient () fcuReq = None"
proof -
  let ?el = "mockEL [INVALID, INVALID_BLOCK_HASH, INVALID, SYNCING, VALID] (None, None)"
  have run: "clientRun mockClient ?el fcuReq (Suc 0)
      = \<lparr>fcu_script = [INVALID_BLOCK_HASH, INVALID, SYNCING, VALID], known_blocks = [],
         np_reply = (None, None),
         el_calls = [ForkchoiceUpdatedCall
           \<lparr>HeadBlockHash = 3, SafeBlockHash = 2, FinalizedBlockHash = 1\<rparr>]\<rparr>"
    "clientRun mockClient ?el fcuReq (Suc (Suc 0))
      = \<lparr>fcu_script = [INVALID, SYNCING, VALID], known_blocks = [],
         np_reply = (None, None),
         el_calls = [ForkchoiceUpdatedCall
           \<lparr>HeadBlockHash = 3, SafeBlockHash = 2, FinalizedBlockHash = 1\<rparr>,
           ForkchoiceUpdatedCall
           \<lparr>HeadBlockHash = 2, SafeBlockHash = 2, FinalizedBlockHash = 1\<rparr>]\<rparr>"
    "clientRun mockClient ?el fcuReq (Suc (Suc (Suc 0)))
      = \<lparr>fcu_script = [SYNCING, VALID], known_blocks = [],
         np_reply = (None, None),
         el_calls = [ForkchoiceUpdatedCall
           \<lparr>HeadBlockHash = 3, SafeBlockHash = 2, FinalizedBlockHash = 1\<rparr>,
           ForkchoiceUpdatedCall
           \<lparr>HeadBlockHash = 2, SafeBlockHash = 2, FinalizedBlockHash = 1\<rparr>,
           ForkchoiceUpdatedCall
           \<lparr>HeadBlockHash = 2, SafeBlockHash = 2, FinalizedBlockHash = 1\<rparr>]\<rparr>"
    "clientRun mockClient ?el fcuReq (Suc (Suc (Suc (Suc 0))))
      = \<lparr>fcu_script = [VALID], known_blocks = [],
         np_reply = (None, None),
         el_calls = [ForkchoiceUpdatedCall
           \<lparr>HeadBlockHash = 3, SafeBlockHash = 2, FinalizedBlockHash = 1\<rparr>,
           ForkchoiceUpdatedCall
           \<lparr>HeadBlockHash = 2, SafeBlockHash = 2, FinalizedBlockHash = 1\<rparr>,
           ForkchoiceUpdatedCall
           \<lparr>HeadBlockHash = 2, SafeBlockHash = 2, FinalizedBlockHash = 1\<rparr>,
           ForkchoiceUpdatedCall
           \<lparr>HeadBlockHash = 2, SafeBlockHash = 2, FinalizedBlockHash = 1\<rparr>]\<rparr>"
    by (simp_all add: mockEL_def mock_reply fcuReq_def)
  have replies: "nthReply mockClient ?el fcuReq 0 = INVALID"
    "nthReply mockClient ?el fcuReq (Suc 0) = INVALID_BLOCK_HASH"
    "nthReply mockClient ?el fcuReq (Suc (Suc 0)) = INVALID"
    "nthReply mockClient ?el fcuReq (Suc (Suc (Suc 0))) = SYNCING"
    by (simp_all only: nthReply_def run) (simp_all add: mockEL_def mock_reply fcuReq_def)
  have inv: "\<forall>i<Suc (Suc (Suc 0)).
      errors_Is (nthErr mockClient ?el fcuReq i) ErrInvalidPayloadStatus \<or>
      errors_Is (nthErr mockClient ?el fcuReq i) ErrInvalidBlockHashPayloadStatus"
    by (simp only: All_less_Suc nthErr_def replies)
       (simp add: INVALID_def INVALID_BLOCK_HASH_def)
  have last: "\<not> (errors_Is (nthErr mockClient ?el fcuReq (Suc (Suc (Suc 0))))
        ErrInvalidPayloadStatus \<or>
      errors_Is (nthErr mockClient ?el fcuReq (Suc (Suc (Suc 0))))
        ErrInvalidBlockHashPayloadStatus)"
    by (simp only: nthErr_def replies) (simp add: SYNCING_def)
  from NotifyForkchoiceUpdate_retries [where ec = mockClient and el = ?el and req = fcuReq
      and n = "Suc (Suc (Suc 0))", THEN conjunct1] inv last
  have "NotifyForkchoiceUpdate mockClient ?el fcuReq
        = Some ((surface ^^ Suc (Suc (Suc 0))) (classify SYNCING),
                clientRun mockClient ?el fcuReq (Suc (Suc (Suc (Suc 0)))),
                nthRequest fcuReq (Suc (Suc (Suc 0))))"
    by (simp only: replies) blast
  then have 1: "NotifyForkchoiceUpdate mockClient ?el fcuReq
     = Some ((None, None, Some ErrBadBlockProduced),
          \<lparr>fcu_script = [VALID], known_blocks = [], np_reply = (None, None),
           el_calls =
             [ForkchoiceUpdatedCall
                \<lparr>HeadBlockHash = 3, SafeBlockHash = 2, FinalizedBlockHash = 1\<rparr>,
              ForkchoiceUpdatedCall
                \<lparr>HeadBlockHash = 2, SafeBlockHash = 2, FinalizedBlockHash = 1\<rparr>,
              ForkchoiceUpdatedCall
                \<lparr>HeadBlockHash = 2, SafeBlockHash = 2, FinalizedBlockHash = 1\<rparr>,
              ForkchoiceUpdatedCall
                \<lparr>HeadBlockHash = 2, SafeBlockHash = 2, FinalizedBlockHash = 1\<rparr>]\<rparr>,
          \<lparr>State = \<lparr>HeadBlockHash = 2, SafeBlockHash = 2, FinalizedBlockHash = 1\<rparr>,
           PayloadAttributes = None, ForkVersion = 4\<rparr>)"
    by (simp only: run) (simp add: SYNCING_def fcuReq_def)
  from NotifyForkchoiceUpdate_retries [where ec = stubbornClient and el = "()" and req = fcuReq,
      THEN conjunct2, THEN conjunct1]
  have 2: "NotifyForkchoiceUpdate stubbornClient () fcuReq = None"
    by (simp add: stubborn_reply)
  from 1 2 show ?thesis by simp
qed


section \<open>The BeaconState store\<close>

lemma rd_agree:
  "a < length h \<Longrightarrow> a < length h' \<Longrightarrow> \<forall>i\<le>a. h' ! i = h ! i \<Longrightarrow> rd h' a k = rd h a k"
proof (induction h a k rule: rd.induct)
  case (1 h a k)
  show ?case
  proof (cases "buf (h ! a) k")
    case (Some w)
    with "1.prems" show ?thesis
      by (simp add: rd.simps [of h a k] rd.simps [of h' a k])
  next
    case None
    show ?thesis
    proof (cases "parent (h ! a)")
      case pn: None
      with None "1.prems" show ?thesis
        by (simp add: rd.simps [of h a k] rd.simps [of h' a k])
    next
      case (Some p)
      show ?thesis
      proof (cases "p < a")
        case True
        with "1.prems" have "rd h' p k = rd h p k"
          by (intro "1.IH" [OF _ None Some True]) auto
        with None Some True "1.prems" show ?thesis
          by (simp add: rd.simps [of h a k] rd.simps [of h' a k])
      next
        case False
        with None Some "1.prems" show ?thesis
          by (simp add: rd.simps [of h a k] rd.simps [of h' a k])
      qed
    qed
  qed
qed

lemma length_kv_write [simp]: "length (kv_write h a w) = length h"
  by (simp add: kv_write_def split: write_op.splits)

lemma length_kv_writes [simp]: "length (kv_writes h a ws) = length h"
  unfolding kv_writes_def by (induction ws arbitrary: h) simp_all

lemma kv_write_other: "i \<noteq> a \<Longrightarrow> kv_write h a w ! i = h ! i"
  by (simp add: kv_write_def split: write_op.splits)

lemma kv_writes_other: "i \<noteq> a \<Longrightarrow> kv_writes h a ws ! i = h ! i"
  unfolding kv_writes_def by (induction ws arbitrary: h) (simp_all add: kv_write_other)

lemma kv_write_at:
  "a < length h \<Longrightarrow> kv_write h a w ! a = (h ! a)\<lparr>buf := buf_write (buf (h ! a)) w\<rparr>"
  by (cases w) (simp_all add: kv_write_def)

lemma kv_writes_at:
  "a < length h \<Longrightarrow> kv_writes h a ws ! a = (h ! a)\<lparr>buf := foldl buf_write (buf (h ! a)) ws\<rparr>"
  unfolding kv_writes_def
  by (induction ws arbitrary: h) (simp_all add: kv_write_at)

lemma overlay_buf_write: "overlay (buf_write b w) m = apply_write (overlay b m) w"
  by (cases w) (auto simp: overlay_def)

lemma overlay_foldl: "overlay (foldl buf_write b ws) m = foldl apply_write (overlay b m) ws"
  by (induction ws arbitrary: b) (simp_all add: overlay_buf_write)

lemma overlay_empty [simp]: "overlay Map.empty m = m"
  by (simp add: overlay_def)

lemma Copy_Inr:
  "Copy h s = Inr (h1, b) \<Longrightarrow>
     \<exists>p. ctx s = Some p \<and> h1 = h @ [\<lparr>parent = Some p, buf = Map.empty\<rparr>] \<and>
         b = s\<lparr>ctx := Some (length h), writeFn := Some (length h)\<rparr>"
  by (auto simp: Copy_def CacheContext_def WithContext_def split: option.splits)

lemma state_read_ctx: "ctx s = Some a \<Longrightarrow> state_read h s = rd h a"
  by (rule ext) (simp add: state_read_def)

lemma branch_isolated:
  assumes "Copy h s = Inr (h1, b)" and "ctx s = Some p" and "p < length h"
  shows "state_read (state_write h1 b ws) s = state_read h s"
proof -
  from Copy_Inr [OF assms(1)] assms(2)
  have h1: "h1 = h @ [\<lparr>parent = Some p, buf = Map.empty\<rparr>]"
    and b: "ctx b = Some (length h)" by auto
  have "rd (kv_writes h1 (length h) ws) p k = rd h p k" for k
    using assms(3) by (intro rd_agree) (auto simp: h1 kv_writes_other nth_append)
  then show ?thesis
    by (auto simp: state_read_ctx [OF assms(2)] state_write_def b)
qed

lemma branch_reads_own_writes:
  assumes "Copy h s = Inr (h1, b)" and "ctx s = Some p" and "p < length h"
  shows "state_read (state_write h1 b ws) b = foldl apply_write (state_read h s) ws"
proof -
  from Copy_Inr [OF assms(1)] assms(2)
  have h1: "h1 = h @ [\<lparr>parent = Some p, buf = Map.empty\<rparr>]"
    and b: "ctx b = Some (length h)" by auto
  define h2 where "h2 = kv_writes h1 (length h) ws"
  have len2: "length h2 = Suc (length h)" by (simp add: h2_def h1)
  have at: "h2 ! length h = \<lparr>parent = Some p, buf = foldl buf_write Map.empty ws\<rparr>"
    using kv_writes_at [of "length h" h1 ws] by (simp add: h1 h2_def)
  have below: "rd h2 p k = rd h p k" for k
    using assms(3) by (intro rd_agree) (auto simp: h1 h2_def kv_writes_other nth_append)
  have "rd h2 (length h) k = overlay (foldl buf_write Map.empty ws) (rd h p) k" for k
    using assms(3)
    by (simp add: rd.simps [of h2 "length h" k] at below overlay_def len2 split: option.splits)
  then have "rd h2 (length h) = foldl apply_write (rd h p) ws"
    by (auto simp: overlay_foldl)
  then show ?thesis
    by (simp add: state_read_ctx [OF b] state_read_ctx [OF assms(2)] state_write_def b h2_def)
qed

lemma Save_publishes:
  assumes "Copy h s = Inr (h1, b)" and "ctx s = Some p" and "p < length h"
  shows "state_read (Save (state_write h1 b ws) b) s = foldl apply_write (state_read h s) ws"
proof -
  from Copy_Inr [OF assms(1)] assms(2)
  have h1: "h1 = h @ [\<lparr>parent = Some p, buf = Map.empty\<rparr>]"
    and b: "ctx b = Some (length h)" "writeFn b = Some (length h)" by auto
  define h2 where "h2 = kv_writes h1 (length h) ws"
  define bc where "bc = foldl buf_write Map.empty ws"
  have len2: "length h2 = Suc (length h)" by (simp add: h2_def h1)
  have at: "h2 ! length h = \<lparr>parent = Some p, buf = bc\<rparr>"
    using kv_writes_at [of "length h" h1 ws] by (simp add: h1 h2_def bc_def)
  have other: "i < length h \<Longrightarrow> h2 ! i = h ! i" for i
    by (simp add: h2_def kv_writes_other h1 nth_append)
  define h3 where "h3 = flush h2 (length h)"
  have h3: "h3 = (h2[p := (h ! p)\<lparr>buf := buf (h ! p) ++ bc\<rparr>])
                   [length h := \<lparr>parent = Some p, buf = Map.empty\<rparr>]"
    using assms(3) by (simp add: h3_def flush_def at other len2)
  have len3: "length h3 = Suc (length h)" by (simp add: h3 len2)
  have p3: "h3 ! p = (h ! p)\<lparr>buf := buf (h ! p) ++ bc\<rparr>"
    using assms(3) by (simp add: h3 len2)
  have low: "i < p \<Longrightarrow> h3 ! i = h ! i" for i
    using assms(3) by (simp add: h3 other)
  have "rd h3 p k = overlay bc (rd h p) k" for k
  proof (cases "bc k")
    case (Some w)
    then show ?thesis
      using assms(3) by (simp add: rd.simps [of h3 p k] len3 p3 overlay_def map_add_def)
  next
    case None
    have par: "parent (h ! p) = Some q \<Longrightarrow> q < p \<Longrightarrow> rd h3 q k = rd h q k" for q
      using assms(3) low by (intro rd_agree) (auto simp: len3)
    from None show ?thesis
      using assms(3)
      by (auto simp: rd.simps [of h3 p k] rd.simps [of h p k] len3 p3 overlay_def
          map_add_def par split: option.splits)
  qed
  then have "rd h3 p = foldl apply_write (rd h p) ws"
    by (auto simp: overlay_foldl bc_def)
  then show ?thesis
    by (simp add: state_read_ctx [OF assms(2)] state_write_def Save_def b h2_def h3_def)
qed

lemma Copy_StateFromContext:
  "Copy h (StateFromContext c)
     = Inr (h @ [\<lparr>parent = Some c, buf = Map.empty\<rparr>],
            \<lparr>ctx = Some (length h), writeFn = Some (length h)\<rparr>)"
  by (simp add: Copy_def StateFromContext_def WithContext_def New_def CacheContext_def)

lemma Copy_genesis: "Copy genesisStores (StateFromContext 0) = Inr (branchStores, branchState)"
  by (simp add: Copy_StateFromContext genesisStores_def branchStores_def branchState_def)

text \<open>
  C8. For a state whose context is a store of the heap and a branch obtained from it by
  \<^verbatim>\<open>Copy\<close>: whatever is written through the branch, the parent reads what it read
  before, and so its \<^verbatim>\<open>HashTreeRoot\<close> is unchanged, as long as \<^verbatim>\<open>Save\<close> is not called on the
  branch; the branch itself reads its writes; after \<^verbatim>\<open>Save\<close> on the branch the parent
  reads them too.
\<close>

theorem Copy_branch_isolation:
  assumes "Copy h s = Inr (h1, b)" and "ctx s = Some p" and "p < length h"
  shows "state_read (state_write h1 b ws) s = state_read h s \<and>
         HashTreeRoot htr (state_write h1 b ws) s = HashTreeRoot htr h s \<and>
         state_read (state_write h1 b ws) b = foldl apply_write (state_read h s) ws \<and>
         state_read (Save (state_write h1 b ws) b) s = foldl apply_write (state_read h s) ws"
  using branch_isolated [OF assms] branch_reads_own_writes [OF assms] Save_publishes [OF assms]
  by (simp add: HashTreeRoot_def)

text \<open>The witness of C8: a branch of the genesis store, one key set and one deleted.\<close>

theorem Copy_branch_isolation_witness:
  "state_read (state_write branchStores branchState [SetKey [1] [2], DeleteKey [3]])
     (StateFromContext 0) = state_read genesisStores (StateFromContext 0) \<and>
   HashTreeRoot someRoot (state_write branchStores branchState [SetKey [1] [2], DeleteKey [3]])
     (StateFromContext 0) = HashTreeRoot someRoot genesisStores (StateFromContext 0) \<and>
   state_read (state_write branchStores branchState [SetKey [1] [2], DeleteKey [3]]) branchState
     = foldl apply_write (state_read genesisStores (StateFromContext 0))
         [SetKey [1] [2], DeleteKey [3]] \<and>
   state_read (Save (state_write branchStores branchState [SetKey [1] [2], DeleteKey [3]])
       branchState) (StateFromContext 0)
     = foldl apply_write (state_read genesisStores (StateFromContext 0))
         [SetKey [1] [2], DeleteKey [3]]"
proof -
  have c: "ctx (StateFromContext 0) = Some 0"
    by (simp add: StateFromContext_def WithContext_def New_def)
  have l: "0 < length genesisStores" by (simp add: genesisStores_def)
  show ?thesis by (rule Copy_branch_isolation [OF Copy_genesis c l])
qed

text \<open>
  C10, as stated, fails: "for every StateDB obtained via \<^verbatim>\<open>WithContext\<close> the write function
  is nil and \<^verbatim>\<open>Save\<close> is a no-op". \<^verbatim>\<open>WithContext\<close> copies the whole struct, the write
  function included: on a branch made by \<^verbatim>\<open>Copy\<close> it returns a state whose write
  function is not nil, and \<^verbatim>\<open>Save\<close> on it changes what the parent reads.
\<close>

theorem WithContext_keeps_write_counterexample:
  "Copy genesisStores (StateFromContext 0) = Inr (branchStores, branchState) \<and>
   writeFn (WithContext branchState (Some 0)) \<noteq> None \<and>
   state_read (state_write branchStores branchState [SetKey [1] [2]]) (StateFromContext 0) [1]
     = None \<and>
   state_read (Save (state_write branchStores branchState [SetKey [1] [2]])
                 (WithContext branchState (Some 0))) (StateFromContext 0) [1] = Some [2]"
proof -
  have c: "ctx (StateFromContext 0) = Some 0"
    by (simp add: StateFromContext_def WithContext_def New_def)
  have l: "0 < length genesisStores" by (simp add: genesisStores_def)
  have g: "state_read genesisStores (StateFromContext 0) [1] = None"
    by (simp add: state_read_def c rd.simps [of _ 0] genesisStores_def)
  have sv: "Save h (WithContext branchState (Some 0)) = Save h branchState" for h
    by (simp add: Save_def WithContext_def branchState_def)
  have "state_read (state_write branchStores branchState [SetKey [1] [2]]) (StateFromContext 0) [1]
     = None"
    by (simp add: branch_isolated [OF Copy_genesis c l] g)
  moreover
  have "state_read (Save (state_write branchStores branchState [SetKey [1] [2]])
                 (WithContext branchState (Some 0))) (StateFromContext 0) [1] = Some [2]"
    by (simp add: sv Save_publishes [OF Copy_genesis c l])
  moreover have "writeFn (WithContext branchState (Some 0)) \<noteq> None"
    by (simp add: WithContext_def branchState_def)
  ultimately show ?thesis using Copy_genesis by simp
qed

text \<open>
  C10, amended. \<^verbatim>\<open>New\<close> gives a nil write function and \<^verbatim>\<open>WithContext\<close> keeps the write
  function of its receiver; \<^verbatim>\<open>Save\<close> on a state whose write function is nil (one made
  by \<^verbatim>\<open>New\<close>, or by \<^verbatim>\<open>WithContext\<close> from such a state) leaves the stores as they are and
  does not panic; a state returned by \<^verbatim>\<open>Copy\<close> carries a write function that is not nil,
  and its \<^verbatim>\<open>Save\<close> publishes the buffered writes to the parent.
\<close>

theorem Save_write_nil:
  "writeFn (New kss) = None \<and> Save h (New kss) = h \<and>
   writeFn (WithContext s c) = writeFn s \<and>
   (writeFn s = None \<longrightarrow> Save h (WithContext s c) = h) \<and>
   (Copy h s = Inr (h1, b) \<and> ctx s = Some p \<and> p < length h \<longrightarrow>
      writeFn b \<noteq> None \<and>
      state_read (Save (state_write h1 b ws) b) s = foldl apply_write (state_read h s) ws)"
proof (intro conjI impI)
  assume a: "Copy h s = Inr (h1, b) \<and> ctx s = Some p \<and> p < length h"
  then show "state_read (Save (state_write h1 b ws) b) s = foldl apply_write (state_read h s) ws"
    by (intro Save_publishes) auto
  from a Copy_Inr [of h s h1 b] show "writeFn b \<noteq> None" by auto
qed (simp_all add: New_def Save_def WithContext_def)

text \<open>The witness of C10: \<^verbatim>\<open>Save\<close> on a fresh state with a context, and on a branch of
  the genesis store.\<close>

theorem Save_write_nil_witness:
  "Save genesisStores (WithContext (New ()) (Some 0)) = genesisStores \<and>
   writeFn branchState \<noteq> None \<and>
   state_read (Save (state_write branchStores branchState [SetKey [1] [2]]) branchState)
     (StateFromContext 0) = foldl apply_write (state_read genesisStores (StateFromContext 0))
       [SetKey [1] [2]]"
proof -
  have c: "ctx (StateFromContext 0) = Some 0"
    by (simp add: StateFromContext_def WithContext_def New_def)
  have l: "0 < length genesisStores" by (simp add: genesisStores_def)
  have n: "writeFn (New ()) = None" by (simp add: New_def)
  from Save_write_nil [of "()" genesisStores "New ()" "Some 0"] n
  have 1: "Save genesisStores (WithContext (New ()) (Some 0)) = genesisStores" by simp
  from Save_write_nil [of "()" genesisStores "StateFromContext 0" "Some 0" branchStores
      branchState 0 "[SetKey [1] [2]]"] Copy_genesis c l
  have 2: "writeFn branchState \<noteq> None \<and>
   state_read (Save (state_write branchStores branchState [SetKey [1] [2]]) branchState)
     (StateFromContext 0) = foldl apply_write (state_read genesisStores (StateFromContext 0))
       [SetKey [1] [2]]" by simp
  from 1 2 show ?thesis by simp
qed


section \<open>The blockchain service\<close>

lemma createProcessProposalResponse_nonfatal:
  "createProcessProposalResponse (Some (WrapNonFatal e))
     = (\<lparr>Status = PROCESS_PROPOSAL_STATUS_ACCEPT\<rparr>, None)"
  by (simp add: createProcessProposalResponse_def IsFatal_def WrapNonFatal_def)

lemma createProcessProposalResponse_fatal:
  "IsFatal err \<Longrightarrow>
     createProcessProposalResponse err = (\<lparr>Status = PROCESS_PROPOSAL_STATUS_REJECT\<rparr>, err)"
  by (simp add: createProcessProposalResponse_def)

lemma createProcessProposalResponse_nil:
  "createProcessProposalResponse None = (\<lparr>Status = PROCESS_PROPOSAL_STATUS_ACCEPT\<rparr>, None)"
  by (simp add: createProcessProposalResponse_def IsFatal_def)

lemma verifyStateRoot_eq:
  "Transition s
     \<lparr>tc_Context = c, OptimisticEngine = False, SkipPayloadVerification = False,
      SkipValidateResult = False, SkipValidateRandao = False,
      tc_ProposerAddress = pa, tc_ConsensusTime = t\<rparr> st blk (stores w) = (terr, h') \<Longrightarrow>
   verifyStateRoot s w c st blk t pa =
     ((if errors_Is terr ErrAcceptedPayloadStatus then None else terr),
      w\<lparr>stores := h', trace := trace w @
        [TransitionCall \<lparr>tc_Context = c, OptimisticEngine = False, SkipPayloadVerification = False,
      SkipValidateResult = False, SkipValidateRandao = False,
      tc_ProposerAddress = pa, tc_ConsensusTime = t\<rparr> st blk]\<rparr>)"
  by (simp add: verifyStateRoot_def Let_def)

lemma forceStartupSync_trace:
  "\<exists>evs. trace (forceStartupSync w st) = trace w @ evs \<and>
         (\<forall>ev\<in>set evs. \<not> isVerifySidecarsCall ev \<and> \<not> isGoTask ev \<and> \<not> isTransitionCall ev)"
  by (simp add: forceStartupSync_def isVerifySidecarsCall_def isGoTask_def isTransitionCall_def)

lemma forceStartupSync_stores [simp]: "stores (forceStartupSync w st) = stores w"
  by (simp add: forceStartupSync_def)

lemma verifyStateRoot_trace:
  "verifyStateRoot s w c st blk t pa = (r, w') \<Longrightarrow>
     \<exists>tc. trace w' = trace w @ [TransitionCall tc st blk] \<and>
       tc_Context tc = c \<and> \<not> OptimisticEngine tc \<and> \<not> SkipPayloadVerification tc \<and>
       \<not> SkipValidateResult tc \<and> \<not> SkipValidateRandao tc \<and>
       tc_ProposerAddress tc = pa \<and> tc_ConsensusTime tc = t"
  by (auto simp: verifyStateRoot_def Let_def split: prod.splits if_splits)


lemma VerifyIncomingBlock_Some_trace:
  assumes "VerifyIncomingBlock s w c (Some b) t pa = Inr (e, w')"
  shows "\<exists>tc evs evs'.
           trace w' = trace w @ evs @
             [TransitionCall tc \<lparr>ctx = Some (length (stores w)),
                                 writeFn = Some (length (stores w))\<rparr> (Some b)] @ evs' \<and>
           tc_Context tc = c \<and> \<not> OptimisticEngine tc \<and> \<not> SkipPayloadVerification tc \<and>
           \<not> SkipValidateResult tc \<and> \<not> SkipValidateRandao tc \<and>
           tc_ProposerAddress tc = pa \<and> tc_ConsensusTime tc = t \<and>
           (\<forall>ev\<in>set (evs @ evs'). \<not> isTransitionCall ev \<and> \<not> isVerifySidecarsCall ev)"
proof -
  let ?post = "\<lparr>ctx = Some (length (stores w)), writeFn = Some (length (stores w))\<rparr>"
  let ?w0 = "forceStartupSync w (StateFromContext c)"
  obtain evs0 where f: "trace ?w0 = trace w @ evs0"
    "\<forall>ev\<in>set evs0. \<not> isVerifySidecarsCall ev \<and> \<not> isGoTask ev \<and> \<not> isTransitionCall ev"
    using forceStartupSync_trace [of w "StateFromContext c"] by auto
  obtain r w1 where v: "verifyStateRoot s
      (?w0\<lparr>stores := stores w @ [\<lparr>parent = Some c, buf = Map.empty\<rparr>]\<rparr>) c ?post (Some b) t pa
        = (r, w1)"
    by (cases "verifyStateRoot s
      (?w0\<lparr>stores := stores w @ [\<lparr>parent = Some c, buf = Map.empty\<rparr>]\<rparr>) c ?post (Some b) t pa")
  from verifyStateRoot_trace [OF v] f obtain tc where
    t1: "trace w1 = trace w @ evs0 @ [TransitionCall tc ?post (Some b)]"
    and fl: "tc_Context tc = c" "\<not> OptimisticEngine tc" "\<not> SkipPayloadVerification tc"
      "\<not> SkipValidateResult tc" "\<not> SkipValidateRandao tc"
      "tc_ProposerAddress tc = pa" "tc_ConsensusTime tc = t"
    by auto
  from assms v have
    "\<exists>evs1. trace w' = trace w1 @ evs1 \<and>
       (\<forall>ev\<in>set evs1. \<not> isTransitionCall ev \<and> \<not> isVerifySidecarsCall ev)"
    by (auto simp: VerifyIncomingBlock_def Let_def Copy_StateFromContext
        isVerifySidecarsCall_def isTransitionCall_def split: if_splits prod.splits sum.splits)
  then obtain evs1 where
    t2: "trace w' = trace w1 @ evs1"
      "\<forall>ev\<in>set evs1. \<not> isTransitionCall ev \<and> \<not> isVerifySidecarsCall ev"
    by blast
  from t1 t2 f(2) fl show ?thesis
    by (intro exI [of _ tc] exI [of _ evs0] exI [of _ evs1]) auto
qed

text \<open>Whenever the handler returns, it returns \<open>ACCEPT\<close> and a nil error: every error
  on its way is wrapped as non-fatal, and a non-fatal error is answered like no error.\<close>

lemma processBlock_always_accepts:
  "processBlock s w c req blk = Inr (res, w') \<Longrightarrow>
     res = (\<lparr>Status = PROCESS_PROPOSAL_STATUS_ACCEPT\<rparr>, None)"
  by (auto simp: processBlock_def Let_def createProcessProposalResponse_nonfatal
      createProcessProposalResponse_nil split: sum.splits prod.splits option.splits)

lemma ProcessProposal_always_accepts:
  "ProcessProposal s w c req = Inr (res, w') \<Longrightarrow>
     res = (\<lparr>Status = PROCESS_PROPOSAL_STATUS_ACCEPT\<rparr>, None)"
  by (auto simp: ProcessProposal_def Let_def createProcessProposalResponse_nonfatal
      dest: processBlock_always_accepts split: sum.splits prod.splits option.splits if_splits)

text \<open>
  C1. The claim: a non-fatal error from decoding the block, decoding the sidecars, blob
  verification or block verification is answered with status \<open>REJECT\<close> and a nil
  error. The code on a request without transactions (the block does not decode), on a
  request whose sidecar fails verification, and on a block whose state transition
  fails: the answer is \<open>ACCEPT\<close> each time.
\<close>

theorem ProcessProposal_accepts_nonfatal_error:
  "ProcessProposal (mockService None (None, None) False) world0 0 (ppReq [])
     = Inr ((\<lparr>Status = PROCESS_PROPOSAL_STATUS_ACCEPT\<rparr>, None), world0) \<and>
   ProcessProposal (mockService None (None, None) False) world0 0 (ppReq [[1], [255]])
     = Inr ((\<lparr>Status = PROCESS_PROPOSAL_STATUS_ACCEPT\<rparr>, None),
          world0\<lparr>trace := [VerifySidecarsCall
             \<lparr>cs_sidecars = Some [[255]], cs_blkHeader = [1]\<rparr>]\<rparr>) \<and>
   map_sum id fst
     (ProcessProposal (mockService (Some (ErrOther ''state root mismatch'')) (None, None) False)
        world0 0 (ppReq [[1]]))
     = Inr (\<lparr>Status = PROCESS_PROPOSAL_STATUS_ACCEPT\<rparr>, None)"
proof (intro conjI)
  show "ProcessProposal (mockService None (None, None) False) world0 0 (ppReq [])
     = Inr ((\<lparr>Status = PROCESS_PROPOSAL_STATUS_ACCEPT\<rparr>, None), world0)"
    by (simp add: ProcessProposal_def mockService_def mock_UnmarshalBeaconBlock_def ppReq_def
      BeaconBlockTxIndex_def createProcessProposalResponse_nonfatal)
  show "ProcessProposal (mockService None (None, None) False) world0 0 (ppReq [[1], [255]])
     = Inr ((\<lparr>Status = PROCESS_PROPOSAL_STATUS_ACCEPT\<rparr>, None),
          world0\<lparr>trace := [VerifySidecarsCall
             \<lparr>cs_sidecars = Some [[255]], cs_blkHeader = [1]\<rparr>]\<rparr>)"
    by (simp add: ProcessProposal_def mockService_def mock_UnmarshalBeaconBlock_def ppReq_def
      mock_UnmarshalBlobSidecars_def BeaconBlockTxIndex_def BlobSidecarsTxIndex_def
      sidecars_IsNil_def sidecars_Len_def mock_VerifySidecars_def world0_def
      createProcessProposalResponse_nonfatal)
  show "map_sum id fst
     (ProcessProposal (mockService (Some (ErrOther ''state root mismatch'')) (None, None) False)
        world0 0 (ppReq [[1]]))
     = Inr (\<lparr>Status = PROCESS_PROPOSAL_STATUS_ACCEPT\<rparr>, None)"
    by (simp add: ProcessProposal_def mockService_def mock_UnmarshalBeaconBlock_def ppReq_def
      mock_UnmarshalBlobSidecars_def BeaconBlockTxIndex_def BlobSidecarsTxIndex_def
      sidecars_IsNil_def sidecars_Len_def processBlock_def VerifyIncomingBlock_def
      Copy_StateFromContext
      verifyStateRoot_def shouldBuildOptimisticPayloads_def errors_Is_def Let_def
      createProcessProposalResponse_nonfatal)
qed

text \<open>
  C4. \<^verbatim>\<open>verifyStateRoot\<close> runs the state transition once, on the state it is given, with
  \<^verbatim>\<open>OptimisticEngine\<close>, \<^verbatim>\<open>SkipPayloadVerification\<close>, \<^verbatim>\<open>SkipValidateResult\<close> and
  \<^verbatim>\<open>SkipValidateRandao\<close> all false; it returns nil exactly when the transition returns no
  error or an error that is \<^verbatim>\<open>ErrAcceptedPayloadStatus\<close>, and returns every other
  transition error unchanged. In \<^verbatim>\<open>VerifyIncomingBlock\<close> the state it is given is the
  branch that \<^verbatim>\<open>Copy\<close> makes of the pre-state.
\<close>

theorem verifyStateRoot_transition:
  "(\<exists>tc terr h'.
      Transition s tc st blk (stores w) = (terr, h') \<and>
      tc_Context tc = c \<and> \<not> OptimisticEngine tc \<and> \<not> SkipPayloadVerification tc \<and>
      \<not> SkipValidateResult tc \<and> \<not> SkipValidateRandao tc \<and>
      tc_ProposerAddress tc = pa \<and> tc_ConsensusTime tc = t \<and>
      snd (verifyStateRoot s w c st blk t pa)
        = w\<lparr>stores := h', trace := trace w @ [TransitionCall tc st blk]\<rparr> \<and>
      (fst (verifyStateRoot s w c st blk t pa) = None
         \<longleftrightarrow> terr = None \<or> errors_Is terr ErrAcceptedPayloadStatus) \<and>
      (fst (verifyStateRoot s w c st blk t pa) \<noteq> None
         \<longrightarrow> fst (verifyStateRoot s w c st blk t pa) = terr)) \<and>
   (VerifyIncomingBlock s w c (Some b) t pa = Inr (e, w') \<longrightarrow>
      (\<exists>tc evs evs' h1 postState.
         Copy (stores w) (StateFromContext c) = Inr (h1, postState) \<and>
         trace w' = trace w @ evs @ [TransitionCall tc postState (Some b)] @ evs' \<and>
         \<not> OptimisticEngine tc \<and> \<not> SkipPayloadVerification tc \<and>
         \<not> SkipValidateResult tc \<and> \<not> SkipValidateRandao tc \<and>
         (\<forall>ev\<in>set (evs @ evs'). \<not> isTransitionCall ev)))"
proof (intro conjI impI)
  let ?tc = "\<lparr>tc_Context = c, OptimisticEngine = False, SkipPayloadVerification = False,
      SkipValidateResult = False, SkipValidateRandao = False,
      tc_ProposerAddress = pa, tc_ConsensusTime = t\<rparr>"
  obtain terr h' where tr: "Transition s ?tc st blk (stores w) = (terr, h')"
    by (cases "Transition s ?tc st blk (stores w)")
  show "\<exists>tc terr h'.
      Transition s tc st blk (stores w) = (terr, h') \<and>
      tc_Context tc = c \<and> \<not> OptimisticEngine tc \<and> \<not> SkipPayloadVerification tc \<and>
      \<not> SkipValidateResult tc \<and> \<not> SkipValidateRandao tc \<and>
      tc_ProposerAddress tc = pa \<and> tc_ConsensusTime tc = t \<and>
      snd (verifyStateRoot s w c st blk t pa)
        = w\<lparr>stores := h', trace := trace w @ [TransitionCall tc st blk]\<rparr> \<and>
      (fst (verifyStateRoot s w c st blk t pa) = None
         \<longleftrightarrow> terr = None \<or> errors_Is terr ErrAcceptedPayloadStatus) \<and>
      (fst (verifyStateRoot s w c st blk t pa) \<noteq> None
         \<longrightarrow> fst (verifyStateRoot s w c st blk t pa) = terr)"
    by (intro exI [of _ ?tc] exI [of _ terr] exI [of _ h'])
       (simp add: verifyStateRoot_eq [OF tr] tr)
next
  assume "VerifyIncomingBlock s w c (Some b) t pa = Inr (e, w')"
  from VerifyIncomingBlock_Some_trace [OF this] obtain tc evs evs' where
    "trace w' = trace w @ evs @
             [TransitionCall tc \<lparr>ctx = Some (length (stores w)),
                                 writeFn = Some (length (stores w))\<rparr> (Some b)] @ evs'"
    "\<not> OptimisticEngine tc" "\<not> SkipPayloadVerification tc"
    "\<not> SkipValidateResult tc" "\<not> SkipValidateRandao tc"
    "\<forall>ev\<in>set (evs @ evs'). \<not> isTransitionCall ev"
    by blast
  then show "\<exists>tc evs evs' h1 postState.
         Copy (stores w) (StateFromContext c) = Inr (h1, postState) \<and>
         trace w' = trace w @ evs @ [TransitionCall tc postState (Some b)] @ evs' \<and>
         \<not> OptimisticEngine tc \<and> \<not> SkipPayloadVerification tc \<and>
         \<not> SkipValidateResult tc \<and> \<not> SkipValidateRandao tc \<and>
         (\<forall>ev\<in>set (evs @ evs'). \<not> isTransitionCall ev)"
    unfolding Copy_StateFromContext by blast
qed

text \<open>The witness of C4: a transition that fails with a state root mismatch, and one that
  fails with a wrapped accepted status.\<close>

theorem verifyStateRoot_transition_witness:
  "fst (verifyStateRoot (mockService (Some (ErrOther ''state root mismatch'')) (None, None) False)
          world0 0 branchState (Some blk1) 100 [1]) = Some (ErrOther ''state root mismatch'') \<and>
   fst (verifyStateRoot (mockService (Some (Wrapf ''new payload'' ErrAcceptedPayloadStatus))
          (None, None) False) world0 0 branchState (Some blk1) 100 [1]) = None"
proof -
  let ?s1 = "mockService (Some (ErrOther ''state root mismatch'')) (None, None) False"
  let ?s2 = "mockService (Some (Wrapf ''new payload'' ErrAcceptedPayloadStatus)) (None, None) False"
  from verifyStateRoot_transition [where s = ?s1 and st = branchState and blk = "Some blk1"
      and w = world0 and c = 0 and pa = "[1]" and t = 100, THEN conjunct1]
  obtain tc1 terr1 h1 where
    t1: "Transition ?s1 tc1 branchState (Some blk1) (stores world0) = (terr1, h1)"
    and n1: "fst (verifyStateRoot ?s1 world0 0 branchState (Some blk1) 100 [1]) = None
         \<longleftrightarrow> terr1 = None \<or> errors_Is terr1 ErrAcceptedPayloadStatus"
    and e1: "fst (verifyStateRoot ?s1 world0 0 branchState (Some blk1) 100 [1]) \<noteq> None
         \<longrightarrow> fst (verifyStateRoot ?s1 world0 0 branchState (Some blk1) 100 [1]) = terr1"
    by blast
  from t1 have "terr1 = Some (ErrOther ''state root mismatch'')"
    by (simp add: mockService_def)
  with n1 e1
  have r1: "fst (verifyStateRoot ?s1 world0 0 branchState (Some blk1) 100 [1])
      = Some (ErrOther ''state root mismatch'')"
    by (simp add: errors_Is_def)
  from verifyStateRoot_transition [where s = ?s2 and st = branchState and blk = "Some blk1"
      and w = world0 and c = 0 and pa = "[1]" and t = 100, THEN conjunct1]
  obtain tc2 terr2 h2 where
    t2: "Transition ?s2 tc2 branchState (Some blk1) (stores world0) = (terr2, h2)"
    and n2: "fst (verifyStateRoot ?s2 world0 0 branchState (Some blk1) 100 [1]) = None
         \<longleftrightarrow> terr2 = None \<or> errors_Is terr2 ErrAcceptedPayloadStatus"
    by blast
  from t2 have "terr2 = Some (Wrapf ''new payload'' ErrAcceptedPayloadStatus)"
    by (simp add: mockService_def)
  with n2 have r2: "fst (verifyStateRoot ?s2 world0 0 branchState (Some blk1) 100 [1]) = None"
    by (simp add: errors_Is_def)
  from r1 r2 show ?thesis by simp
qed






text \<open>
  C9. If \<^verbatim>\<open>verifyStateRoot\<close> rejects the block, optimistic payload builds are enabled and the
  read of the latest execution payload header from the pre-state fails, then
  \<^verbatim>\<open>VerifyIncomingBlock\<close> returns the error of that read, not the error of the
  verification, and launches no task.
\<close>

theorem VerifyIncomingBlock_header_read_error:
  assumes "beaconBlk = Some b"
    and "shouldBuildOptimisticPayloads s"
    and "Copy (stores (forceStartupSync w (StateFromContext c))) (StateFromContext c)
           = Inr (h1, postState)"
    and "verifyStateRoot s ((forceStartupSync w (StateFromContext c))\<lparr>stores := h1\<rparr>) c
           postState beaconBlk consensusTime proposerAddress = (Some e, w1)"
    and "GetLatestExecutionPayloadHeader s (stores w1) (StateFromContext c) = (lph, Some e')"
  shows "VerifyIncomingBlock s w c beaconBlk consensusTime proposerAddress = Inr (Some e', w1) \<and>
         filter isGoTask (trace w1) = filter isGoTask (trace w)"
proof -
  have "VerifyIncomingBlock s w c beaconBlk consensusTime proposerAddress = Inr (Some e', w1)"
    using assms by (simp add: VerifyIncomingBlock_def Let_def)
  moreover from verifyStateRoot_trace [OF assms(4)]
  have "filter isGoTask (trace w1) = filter isGoTask (trace (forceStartupSync w (StateFromContext c)))"
    by (auto simp: isGoTask_def)
  moreover have "filter isGoTask (trace (forceStartupSync w (StateFromContext c))) = filter isGoTask (trace w)"
    by (simp add: forceStartupSync_def isGoTask_def)
  ultimately show ?thesis by simp
qed

text \<open>The witness of C9: the transition fails with a state root mismatch and the header
  read with a missing key.\<close>

theorem VerifyIncomingBlock_header_read_error_witness:
  "VerifyIncomingBlock
     (mockService (Some (ErrOther ''state root mismatch''))
        (None, Some (ErrOther ''key missing'')) True)
     world0 0 (Some blk1) 100 [1]
   = Inr (Some (ErrOther ''key missing''),
          snd (verifyStateRoot
            (mockService (Some (ErrOther ''state root mismatch''))
               (None, Some (ErrOther ''key missing'')) True)
            (world0\<lparr>stores := branchStores\<rparr>) 0 branchState (Some blk1) 100 [1])) \<and>
   filter isGoTask (trace (snd (verifyStateRoot
            (mockService (Some (ErrOther ''state root mismatch''))
               (None, Some (ErrOther ''key missing'')) True)
            (world0\<lparr>stores := branchStores\<rparr>) 0 branchState (Some blk1) 100 [1])))
     = filter isGoTask (trace world0)"
proof -
  let ?s = "mockService (Some (ErrOther ''state root mismatch''))
        (None, Some (ErrOther ''key missing'')) True"
  have f: "forceStartupSync world0 (StateFromContext 0) = world0"
    by (simp add: forceStartupSync_def world0_def)
  have b: "shouldBuildOptimisticPayloads ?s"
    by (simp add: shouldBuildOptimisticPayloads_def mockService_def)
  have c: "Copy (stores (forceStartupSync world0 (StateFromContext 0))) (StateFromContext 0)
      = Inr (branchStores, branchState)"
    by (simp add: f world0_def Copy_genesis)
  have v: "verifyStateRoot ?s ((forceStartupSync world0 (StateFromContext 0))
        \<lparr>stores := branchStores\<rparr>) 0 branchState (Some blk1) 100 [1]
      = (Some (ErrOther ''state root mismatch''),
         snd (verifyStateRoot ?s (world0\<lparr>stores := branchStores\<rparr>) 0 branchState
                (Some blk1) 100 [1]))"
    by (simp add: f verifyStateRoot_def mockService_def errors_Is_def)
  have g: "GetLatestExecutionPayloadHeader ?s
      (stores (snd (verifyStateRoot ?s (world0\<lparr>stores := branchStores\<rparr>) 0 branchState
                (Some blk1) 100 [1]))) (StateFromContext 0)
      = (None, Some (ErrOther ''key missing''))"
    by (simp add: mockService_def)
  show ?thesis
    by (rule VerifyIncomingBlock_header_read_error [OF refl b c v g])
qed

end
